theory Spec2Isabelle
  imports Complex_Main "HOL-Library.Sublist"
begin

section \<open>Python strings\<close>

text \<open>
  A Python \<^verbatim>\<open>str\<close> is a sequence of Unicode code points, so a string is a list of
  naturals (the code points) and \<open>length\<close> is Python's \<^verbatim>\<open>len\<close>. An ASCII literal is
  written \<open>ascii ''...''\<close>; a character beyond ASCII is written as its code point, so
  the word PROXIMOS with an acute accent on its first O (U+00D3) is \<open>ascii ''PR'' @ [211] @ ascii ''XIMOS''\<close>.
\<close>

type_synonym uchar = nat
type_synonym ustr = "uchar list"

definition ascii :: "string \<Rightarrow> ustr" where
  "ascii s = map of_char s"

text \<open>
  \<^verbatim>\<open>str.strip()\<close>, \<^verbatim>\<open>str.split()\<close> and \<^verbatim>\<open>str.isspace()\<close> share one whitespace
  test. The set is finite: U+0009..U+000D, U+001C..U+0020, U+0085, U+00A0, U+1680,
  U+2000..U+200A, U+2028, U+2029, U+202F, U+205F, U+3000.
\<close>

definition isspace :: "uchar \<Rightarrow> bool" where
  "isspace c \<longleftrightarrow>
     (9 \<le> c \<and> c \<le> 13) \<or> (28 \<le> c \<and> c \<le> 32) \<or> c = 133 \<or> c = 160 \<or> c = 5760 \<or>
     (8192 \<le> c \<and> c \<le> 8202) \<or> c = 8232 \<or> c = 8233 \<or> c = 8239 \<or> c = 8287 \<or> c = 12288"

text \<open>
  \<^verbatim>\<open>isalnum\<close>, \<^verbatim>\<open>isdigit\<close> and \<^verbatim>\<open>lower\<close> read the Unicode character database of
  the Python runtime, which is not part of the repository. On ASCII they are written
  out; beyond ASCII they are the fields of a parameter \<open>U\<close>, and every theorem below
  holds for every \<open>U\<close>. \<^verbatim>\<open>str.lower()\<close> is not character-wise beyond ASCII (it may
  change the length), so its extension maps whole strings.
\<close>

record unicode_db =
  ext_isalnum :: "uchar \<Rightarrow> bool"
  ext_isdigit :: "uchar \<Rightarrow> bool"
  ext_lower :: "ustr \<Rightarrow> ustr"

definition isdigit :: "unicode_db \<Rightarrow> uchar \<Rightarrow> bool" where
  "isdigit U c = (if c < 128 then 48 \<le> c \<and> c \<le> 57 else ext_isdigit U c)"

definition isalnum :: "unicode_db \<Rightarrow> uchar \<Rightarrow> bool" where
  "isalnum U c =
     (if c < 128 then (48 \<le> c \<and> c \<le> 57) \<or> (65 \<le> c \<and> c \<le> 90) \<or> (97 \<le> c \<and> c \<le> 122)
      else ext_isalnum U c)"

definition py_lower :: "unicode_db \<Rightarrow> ustr \<Rightarrow> ustr" where
  "py_lower U s =
     (if \<forall>c \<in> set s. c < 128 then map (\<lambda>c. if 65 \<le> c \<and> c \<le> 90 then c + 32 else c) s
      else ext_lower U s)"

text \<open>The database used where a concrete one is needed: nothing beyond ASCII is
  alphanumeric or a digit, and lower-casing leaves non-ASCII strings alone. It is only
  ever applied to ASCII text, where it plays no part.\<close>

definition ascii_db :: unicode_db where
  "ascii_db = \<lparr>ext_isalnum = (\<lambda>c. False), ext_isdigit = (\<lambda>c. False), ext_lower = (\<lambda>s. s)\<rparr>"

definition py_strip :: "ustr \<Rightarrow> ustr" where
  \<comment> \<open>\<^verbatim>\<open>s.strip()\<close>\<close>
  "py_strip s = rev (dropWhile isspace (rev (dropWhile isspace s)))"

definition py_lstrip_chars :: "ustr \<Rightarrow> ustr \<Rightarrow> ustr" where
  \<comment> \<open>\<^verbatim>\<open>s.lstrip(chars)\<close>\<close>
  "py_lstrip_chars chars s = dropWhile (\<lambda>c. c \<in> set chars) s"

definition py_strip_chars :: "ustr \<Rightarrow> ustr \<Rightarrow> ustr" where
  \<comment> \<open>\<^verbatim>\<open>s.strip(chars)\<close>\<close>
  "py_strip_chars chars s =
     rev (dropWhile (\<lambda>c. c \<in> set chars) (rev (dropWhile (\<lambda>c. c \<in> set chars) s)))"

definition py_startswith :: "ustr \<Rightarrow> ustr \<Rightarrow> bool" where
  \<comment> \<open>\<^verbatim>\<open>s.startswith(p)\<close>\<close>
  "py_startswith s p = prefix p s"

text \<open>\<^verbatim>\<open>s.split()\<close>: the maximal runs of non-whitespace characters, in order.
  \<open>cur\<close> is the word being read.\<close>

fun split_ws :: "ustr \<Rightarrow> ustr \<Rightarrow> ustr list" where
  "split_ws [] cur = (if cur = [] then [] else [cur])"
| "split_ws (c # cs) cur =
     (if isspace c then (if cur = [] then split_ws cs [] else cur # split_ws cs [])
      else split_ws cs (cur @ [c]))"

definition py_split :: "ustr \<Rightarrow> ustr list" where
  "py_split s = split_ws s []"

text \<open>\<^verbatim>\<open>s.split(sep)\<close> for a one-character separator (the source splits on
  \<^verbatim>\<open>"\n"\<close> and on \<^verbatim>\<open>"_"\<close> only): empty pieces are kept, and the empty string gives
  one empty piece.\<close>

fun py_split_on :: "uchar \<Rightarrow> ustr \<Rightarrow> ustr list" where
  "py_split_on sep [] = [[]]"
| "py_split_on sep (c # cs) =
     (if c = sep then [] # py_split_on sep cs
      else (case py_split_on sep cs of
              [] \<Rightarrow> [[c]]
            | w # ws \<Rightarrow> (c # w) # ws))"

text \<open>\<^verbatim>\<open>s.replace(old, new)\<close>: the occurrences of \<open>old\<close> are found from the left and
  do not overlap. \<open>skip\<close> counts the characters of a match still to be passed over.
  For an empty \<open>old\<close> Python puts \<open>new\<close> before every character and at the end.\<close>

fun replace_from :: "ustr \<Rightarrow> ustr \<Rightarrow> ustr \<Rightarrow> nat \<Rightarrow> ustr" where
  "replace_from old new [] skip = []"
| "replace_from old new (c # cs) skip =
     (if 0 < skip then replace_from old new cs (skip - 1)
      else if prefix old (c # cs) then new @ replace_from old new cs (length old - 1)
      else c # replace_from old new cs 0)"

definition py_replace :: "ustr \<Rightarrow> ustr \<Rightarrow> ustr \<Rightarrow> ustr" where
  "py_replace s old new =
     (if old = [] then new @ concat (map (\<lambda>c. c # new) s) else replace_from old new s 0)"

definition NL :: uchar where
  \<comment> \<open>\<^verbatim>\<open>"\n"\<close>\<close>
  "NL = 10"

section \<open>The agent state (state.py)\<close>

text \<open>
  \<^verbatim>\<open>AgentState\<close> is a total \<^verbatim>\<open>TypedDict\<close> with ten keys. The endpoint of analyze.py
  (\<^verbatim>\<open>initial_state\<close>, lines 84 to 95) sets all ten; the one of main.py (lines 116 to 126)
  sets nine and leaves \<^verbatim>\<open>user_token\<close> out, which the nodes read as
  \<^verbatim>\<open>state.get("user_token", "")\<close>, that is as the empty string. Every node returns
  \<^verbatim>\<open>{**state, ...}\<close>. So the state is a record, with an empty \<open>user_token\<close> for the
  missing key, \<^verbatim>\<open>{**state, "k": v}\<close> is a record update, and no other default of
  \<^verbatim>\<open>state.get(k, default)\<close> is ever taken.
  \<^verbatim>\<open>confidence_score\<close> is only ever stored and copied; the one value the nodes write
  is \<^verbatim>\<open>0.0\<close>.
\<close>

record AgentState =
  raw_text :: ustr
  doc_type :: ustr
  simplified_explanation :: ustr
  identified_risks :: "ustr list"
  action_items :: "ustr list"
  confidence_score :: real
  language :: ustr
  error_message :: ustr
  thread_id :: ustr
  user_token :: ustr

section \<open>The collaborators\<close>

text \<open>
  The language model and the database are outside the repository. A model call is a
  function from the request to \<open>Some\<close> content, or \<open>None\<close> when the call (building the
  client, \<^verbatim>\<open>ainvoke\<close>, reading \<^verbatim>\<open>response.content\<close>) raises an \<^verbatim>\<open>Exception\<close>. The system
  prompts, model names and temperatures are fixed literals of each node, so a request
  is identified by the node and the values interpolated into the human message.

  Obtaining the Supabase client gives a client, \<^verbatim>\<open>None\<close> (no configuration) or raises;
  an insert succeeds or raises. What a node does to the outside world is the list of
  events it returns, in order.
\<close>

datatype llm_request =
  ClassifyRequest ustr  \<comment> \<open>\<open>raw_text\<close>; \<^verbatim>\<open>llama-3.1-8b-instant\<close>, temperature 0.3\<close>
| AnalyzeRequest ustr ustr ustr
    \<comment> \<open>\<open>doc_type\<close>, \<open>raw_text\<close>, \<open>language\<close>; \<^verbatim>\<open>llama-3.3-70b-versatile\<close>, temperature 0.4\<close>

record analysis_data =
  row_thread_id :: ustr
  row_user_id :: "ustr option"
  row_doc_type :: ustr
  row_simplified_explanation :: ustr
  row_identified_risks :: "ustr list"
  row_action_items :: "ustr list"
  row_confidence_score :: real
  row_language :: ustr
  row_raw_text :: "ustr option"

datatype client_result = ClientRaises | ClientNone | ClientOk

datatype log_line =
  LogAuthenticatedClient
| LogNoToken
| LogNoUserId ustr
| LogInserting "ustr option" ustr
| LogUserIdIsNone
| LogDbError

datatype event =
  ModelCall llm_request
| GetClient ustr
| Insert analysis_data
| Print log_line

record collaborators =
  llm :: "llm_request \<Rightarrow> ustr option"
  get_client :: "ustr \<Rightarrow> client_result"
  insert_ok :: "analysis_data \<Rightarrow> bool"

section \<open>extract\_and\_classify\_node (nodes.py)\<close>

definition MIN_TEXT_LENGTH :: nat where "MIN_TEXT_LENGTH = 50"
definition MIN_WORDS :: nat where "MIN_WORDS = 10"

definition MSG_TOO_SHORT :: ustr where
  "MSG_TOO_SHORT = ascii ''Lo siento, el texto extra'' @ [237] @ ascii ''do de la imagen es demasiado corto o est'' @ [225] @ ascii '' vac'' @ [237] @ ascii ''o. Por favor, toma una foto m'' @ [225] @ ascii ''s clara del documento completo, asegur'' @ [225] @ ascii ''ndote de que todo el texto sea visible y legible.''"

definition MSG_FEW_WORDS :: ustr where
  "MSG_FEW_WORDS = ascii ''El texto extra'' @ [237] @ ascii ''do parece ser muy corto o incompleto. Por favor, intenta tomar una foto m'' @ [225] @ ascii ''s n'' @ [237] @ ascii ''tida del documento, asegur'' @ [225] @ ascii ''ndote de capturar todo el contenido visible.''"

definition MSG_NOISE :: ustr where
  "MSG_NOISE = ascii ''El texto extra'' @ [237] @ ascii ''do parece contener demasiados caracteres especiales o no es legible. Por favor, toma una foto m'' @ [225] @ ascii ''s clara del documento, con buena iluminaci'' @ [243] @ ascii ''n y sin reflejos.''"

definition MSG_REPEATED :: ustr where
  "MSG_REPEATED = ascii ''El texto extra'' @ [237] @ ascii ''do parece contener ruido o caracteres repetidos. Por favor, intenta tomar una foto m'' @ [225] @ ascii ''s n'' @ [237] @ ascii ''tida del documento, evitando sombras y asegur'' @ [225] @ ascii ''ndote de que el texto est'' @ [233] @ ascii '' bien enfocado.''"

definition MSG_REPETITIVE :: ustr where
  "MSG_REPETITIVE = ascii ''El texto extra'' @ [237] @ ascii ''do parece ser muy repetitivo o no contiene suficiente informaci'' @ [243] @ ascii ''n. Por favor, toma una foto del documento completo, asegur'' @ [225] @ ascii ''ndote de capturar todo el contenido.''"

definition MSG_CLASSIFY_FAILED :: ustr where
  "MSG_CLASSIFY_FAILED = ascii ''Hubo un problema al procesar el documento. Por favor, intenta tomar una foto m'' @ [225] @ ascii ''s clara y vuelve a intentarlo.''"

definition PUNCTUATION :: ustr where
  \<comment> \<open>the argument of \<^verbatim>\<open>strip\<close> in check 5; 34 and 39 are the two quote characters\<close>
  "PUNCTUATION = ascii ''.,;:!?()[]{}'' @ [34] @ [39]"

text \<open>The loop of check 4 (lines 76 to 85). \<^verbatim>\<open>current_char\<close> starts as \<^verbatim>\<open>None\<close>, which
  equals no character. \<^verbatim>\<open>max_repeat\<close> is raised only when a character repeats the one
  before it, so it stays 0 on a text without two equal neighbours.\<close>

fun max_repeat_loop :: "ustr \<Rightarrow> nat \<Rightarrow> uchar option \<Rightarrow> nat \<Rightarrow> nat" where
  "max_repeat_loop [] max_repeat current_char current_count = max_repeat"
| "max_repeat_loop (char # rest) max_repeat current_char current_count =
     (if Some char = current_char
      then max_repeat_loop rest (max max_repeat (current_count + 1)) current_char (current_count + 1)
      else max_repeat_loop rest max_repeat (Some char) 1)"

text \<open>
  Lines 35 to 106: the five checks, in the order of the source; \<open>Some\<close> message is an
  early return with that \<^verbatim>\<open>error_message\<close>, \<open>None\<close> falls through to the model call.
  The ratio of check 3 is a Python float; both counts are below \<open>2^53\<close> for any string
  that fits in memory, so the rounded quotient is below 0.5 exactly when the exact one
  is, and the quotient is taken in the reals.
\<close>

definition quality_checks :: "unicode_db \<Rightarrow> ustr \<Rightarrow> ustr option" where
  "quality_checks U raw =
     (let text_clean = py_strip raw in
      if text_clean = [] \<or> length text_clean < MIN_TEXT_LENGTH then Some MSG_TOO_SHORT
      else
        let words = py_split text_clean in
        if length words < MIN_WORDS then Some MSG_FEW_WORDS
        else
          let alphanumeric_count = length (filter (\<lambda>c. isalnum U c \<or> isspace c) text_clean);
              total_chars = length text_clean
          in
          if total_chars > 0 \<and> real alphanumeric_count / real total_chars < 0.5
          then Some MSG_NOISE
          else
            let max_repeat = max_repeat_loop text_clean 0 None 0 in
            if max_repeat > 5 then Some MSG_REPEATED
            else
              let unique_words =
                    set (map (\<lambda>word. py_strip_chars PUNCTUATION (py_lower U word))
                             (filter (\<lambda>word. length word > 2) words))
              in
              if card unique_words < 5 then Some MSG_REPETITIVE else None)"

text \<open>The early returns of lines 40 to 46, 51 to 57, 66 to 72, 89 to 95, 100 to 106
  and 170 to 176 differ in the message only.\<close>

definition rejected :: "AgentState \<Rightarrow> ustr \<Rightarrow> AgentState" where
  "rejected state msg =
     state\<lparr>error_message := msg, doc_type := [], language := ascii ''es'', confidence_score := 0\<rparr>"

text \<open>Lines 149 to 158: every line that starts with \<^verbatim>\<open>TIPO:\<close> overwrites the document type \<open>dt\<close>,
  every other line that starts with \<^verbatim>\<open>IDIOMA:\<close> overwrites the language \<open>lang\<close>.\<close>

fun parse_classification :: "unicode_db \<Rightarrow> ustr list \<Rightarrow> ustr \<Rightarrow> ustr \<Rightarrow> ustr \<times> ustr" where
  "parse_classification U [] dt lang = (dt, lang)"
| "parse_classification U (line # lines) dt lang =
     (if py_startswith line (ascii ''TIPO:'')
      then parse_classification U lines (py_strip (py_replace line (ascii ''TIPO:'') [])) lang
      else if py_startswith line (ascii ''IDIOMA:'')
      then parse_classification U lines dt
             (py_lower U (py_strip (py_replace line (ascii ''IDIOMA:'') [])))
      else parse_classification U lines dt lang)"

definition classify_response :: "unicode_db \<Rightarrow> ustr \<Rightarrow> ustr \<times> ustr" where
  \<comment> \<open>lines 147 to 158, from the content of the response to \<open>(doc_type, language)\<close>\<close>
  "classify_response U content =
     parse_classification U (py_split_on NL (py_strip content)) (ascii ''desconocido'') (ascii ''es'')"

text \<open>The node. The \<open>ModelCall\<close> event stands for entering the \<^verbatim>\<open>try\<close> block of line 109,
  whether the call then returns or raises.\<close>

definition extract_and_classify_node ::
  "unicode_db \<Rightarrow> collaborators \<Rightarrow> AgentState \<Rightarrow> event list \<times> AgentState" where
  "extract_and_classify_node U C state =
     (case quality_checks U (raw_text state) of
        Some msg \<Rightarrow> ([], rejected state msg)
      | None \<Rightarrow>
          (case llm C (ClassifyRequest (raw_text state)) of
             None \<Rightarrow>
               ([ModelCall (ClassifyRequest (raw_text state))], rejected state MSG_CLASSIFY_FAILED)
           | Some content \<Rightarrow>
               ([ModelCall (ClassifyRequest (raw_text state))],
                state\<lparr>doc_type := fst (classify_response U content),
                      language := snd (classify_response U content),
                      error_message := []\<rparr>)))"

section \<open>simplify\_and\_analyze\_node (nodes.py)\<close>

datatype section_name = NoSection | Resumen | Riesgos | Acciones

definition HEADER_RESUMEN :: ustr where
  "HEADER_RESUMEN = ascii ''RESUMEN:''"

definition HEADER_RIESGOS :: ustr where
  "HEADER_RIESGOS = ascii ''LETRA CHICA / RIESGOS:''"

definition HEADER_ACCIONES :: ustr where
  "HEADER_ACCIONES = ascii ''PR'' @ [211] @ ascii ''XIMOS PASOS:''"

definition BULLET :: ustr where
  \<comment> \<open>U+2022 and a space\<close>
  "BULLET = [8226, 32]"

definition SUMMARY_MARKERS :: ustr where
  "SUMMARY_MARKERS = ascii ''1234567890.-* ''"

definition BULLET_MARKERS :: ustr where
  "BULLET_MARKERS = ascii ''-* ''"

type_synonym parse_state = "section_name \<times> ustr \<times> ustr list \<times> ustr list"

text \<open>One turn of the loop of lines 326 to 360, on \<open>(current_section,
  explanation, risks, actions)\<close>. \<^verbatim>\<open>line[0]\<close> is read only
  after \<^verbatim>\<open>line\<close> was found non-empty.\<close>

definition analysis_line :: "unicode_db \<Rightarrow> parse_state \<Rightarrow> ustr \<Rightarrow> parse_state" where
  "analysis_line U st raw_line =
     (case st of (current_section, explanation, risks, actions) \<Rightarrow>
      let line = py_strip raw_line in
      if py_startswith line HEADER_RESUMEN
      then (Resumen, explanation, risks, actions)
      else if py_startswith line HEADER_RIESGOS
      then (Riesgos, explanation, risks, actions)
      else if py_startswith line HEADER_ACCIONES
      then (Acciones, explanation, risks, actions)
      else
        (case current_section of
           Resumen \<Rightarrow>
             if line \<noteq> [] \<and>
                (py_startswith line (ascii ''1.'') \<or> py_startswith line (ascii ''2.'') \<or>
                 py_startswith line (ascii ''3.'') \<or> py_startswith line (ascii ''-'') \<or>
                 py_startswith line (ascii ''*'') \<or> isdigit U (hd line))
             then
               let clean_line = py_strip (py_lstrip_chars SUMMARY_MARKERS line) in
               if clean_line \<noteq> []
               then (current_section,
                     (if explanation \<noteq> [] then explanation @ [NL]
                      else explanation) @ BULLET @ clean_line,
                     risks, actions)
               else st
             else st
         | Riesgos \<Rightarrow>
             if line \<noteq> [] \<and> (py_startswith line (ascii ''-'') \<or> py_startswith line (ascii ''*''))
             then
               let risk = py_strip (py_lstrip_chars BULLET_MARKERS line) in
               if risk \<noteq> []
               then (current_section, explanation, risks @ [risk], actions)
               else st
             else st
         | Acciones \<Rightarrow>
             if line \<noteq> [] \<and> (py_startswith line (ascii ''-'') \<or> py_startswith line (ascii ''*''))
             then
               let action = py_strip (py_lstrip_chars BULLET_MARKERS line) in
               if action \<noteq> []
               then (current_section, explanation, risks, actions @ [action])
               else st
             else st
         | NoSection \<Rightarrow> st))"

fun analysis_loop :: "unicode_db \<Rightarrow> ustr list \<Rightarrow> parse_state \<Rightarrow> parse_state" where
  "analysis_loop U [] st = st"
| "analysis_loop U (line # lines) st = analysis_loop U lines (analysis_line U st line)"

definition parse_analysis :: "unicode_db \<Rightarrow> ustr \<Rightarrow> ustr \<times> ustr list \<times> ustr list" where
  \<comment> \<open>lines 316 to 364, from the content of the response to the three parsed fields\<close>
  "parse_analysis U content =
     (let response_text = py_strip content in
      case analysis_loop U (py_split_on NL response_text) (NoSection, [], [], []) of
        (current_section, explanation, risks, actions) \<Rightarrow>
          (if explanation = [] then take 500 response_text else explanation,
           risks, actions))"

definition FAILED_EXPLANATION :: ustr where
  "FAILED_EXPLANATION = ascii ''Error al procesar el documento. Por favor, intenta nuevamente.''"

definition FAILED_RISK :: ustr where
  "FAILED_RISK = ascii ''No se pudieron identificar riesgos debido a un error en el procesamiento.''"

definition FAILED_ACTION :: ustr where
  "FAILED_ACTION = ascii ''Contacta con soporte t'' @ [233] @ ascii ''cnico si el problema persiste.''"

text \<open>Lines 400 to 406: the user id is read from the thread id. 95 is the underscore.\<close>

definition user_id_from_thread :: "ustr \<Rightarrow> ustr option" where
  "user_id_from_thread thread =
     (if py_startswith thread (ascii ''user_'')
      then (let parts = py_split_on 95 thread in
            if length parts \<ge> 2 then Some (parts ! 1) else None)
      else None)"

definition falsy :: "ustr option \<Rightarrow> bool" where
  \<comment> \<open>\<^verbatim>\<open>not user_id_from_thread\<close>: \<^verbatim>\<open>None\<close> or the empty string\<close>
  "falsy x \<longleftrightarrow> x = None \<or> x = Some []"

definition analysis_row ::
  "AgentState \<Rightarrow> ustr \<Rightarrow> ustr list \<Rightarrow> ustr list \<Rightarrow> analysis_data" where
  \<comment> \<open>lines 414 to 428\<close>
  "analysis_row state explanation risks actions =
     \<lparr>row_thread_id = thread_id state,
      row_user_id = user_id_from_thread (thread_id state),
      row_doc_type = doc_type state,
      row_simplified_explanation = explanation,
      row_identified_risks = risks,
      row_action_items = actions,
      row_confidence_score = confidence_score state,
      row_language = language state,
      row_raw_text =
        (if raw_text state = [] then None
         else Some (if length (raw_text state) > 1000 then take 1000 (raw_text state)
                    else raw_text state))\<rparr>"

text \<open>Lines 376 to 445, the inner \<^verbatim>\<open>try\<close>: everything raised inside it is caught at
  line 442 and printed, so the block is a list of events and nothing else.\<close>

definition persist ::
  "collaborators \<Rightarrow> AgentState \<Rightarrow> ustr \<Rightarrow> ustr list \<Rightarrow> ustr list \<Rightarrow> event list" where
  "persist C state explanation risks actions =
     (let token = user_token state;
          row = analysis_row state explanation risks actions;
          uid = user_id_from_thread (thread_id state)
      in
      case get_client C token of
        ClientRaises \<Rightarrow> [GetClient token, Print LogDbError]
      | ClientNone \<Rightarrow>
          [GetClient token, Print (if token \<noteq> [] then LogAuthenticatedClient else LogNoToken)]
      | ClientOk \<Rightarrow>
          [GetClient token, Print (if token \<noteq> [] then LogAuthenticatedClient else LogNoToken)] @
          (if falsy uid then [Print (LogNoUserId (thread_id state))] else []) @
          [Print (LogInserting uid (thread_id state))] @
          (if falsy uid then [Print LogUserIdIsNone, Print LogDbError]
           else if insert_ok C row then [Insert row]
           else [Insert row, Print LogDbError]))"

definition has_error :: "AgentState \<Rightarrow> bool" where
  \<comment> \<open>\<^verbatim>\<open>error_message and error_message.strip()\<close>, as a truth value\<close>
  "has_error state \<longleftrightarrow> error_message state \<noteq> [] \<and> py_strip (error_message state) \<noteq> []"

definition simplify_and_analyze_node ::
  "unicode_db \<Rightarrow> collaborators \<Rightarrow> AgentState \<Rightarrow> event list \<times> AgentState" where
  "simplify_and_analyze_node U C state =
     (if has_error state then ([], state)
      else
        let request = AnalyzeRequest (doc_type state) (raw_text state) (language state) in
        case llm C request of
          None \<Rightarrow>
            ([ModelCall request],
             state\<lparr>simplified_explanation := FAILED_EXPLANATION,
                   identified_risks := [FAILED_RISK],
                   action_items := [FAILED_ACTION],
                   confidence_score := 0\<rparr>)
        | Some content \<Rightarrow>
            (case parse_analysis U content of
               (explanation, risks, actions) \<Rightarrow>
                 (ModelCall request # persist C state explanation risks actions,
                  state\<lparr>simplified_explanation := explanation,
                        identified_risks := risks,
                        action_items := actions,
                        user_token := user_token state\<rparr>)))"

section \<open>The graph (graph.py)\<close>

definition should_continue :: "AgentState \<Rightarrow> string" where
  "should_continue state = (if has_error state then ''end'' else ''continue'')"

datatype node = ExtractAndClassify | SimplifyAndAnalyze | END

definition conditional_edges :: "string \<rightharpoonup> node" where
  \<comment> \<open>the dictionary of lines 43 to 46\<close>
  "conditional_edges = [''end'' \<mapsto> END, ''continue'' \<mapsto> SimplifyAndAnalyze]"

text \<open>
  The workflow: the entry point is \<^verbatim>\<open>extract_and_classify\<close>, its successor is chosen by
  \<open>should_continue\<close> through the dictionary, and \<^verbatim>\<open>simplify_and_analyze\<close> leads to
  \<^verbatim>\<open>END\<close>. Each node returns the whole state, so the state after a node is the state it
  returned. A run gives the nodes it executed, the events and the final state.
\<close>

definition run_graph ::
  "unicode_db \<Rightarrow> collaborators \<Rightarrow> AgentState \<Rightarrow> node list \<times> event list \<times> AgentState" where
  "run_graph U C state =
     (case extract_and_classify_node U C state of
        (events1, state1) \<Rightarrow>
          (case conditional_edges (should_continue state1) of
             Some SimplifyAndAnalyze \<Rightarrow>
               (case simplify_and_analyze_node U C state1 of
                  (events2, state2) \<Rightarrow>
                    ([ExtractAndClassify, SimplifyAndAnalyze], events1 @ events2, state2))
           | _ \<Rightarrow> ([ExtractAndClassify], events1, state1)))"

section \<open>The five conditions of the quality gate, as the specification words them\<close>

text \<open>
  These follow the specification (section 4.1), not the source, and are compared with
  \<open>quality_checks\<close> below. Each is a predicate of the text it is read on, the input
  text or the trimmed one. A run of \<open>n\<close> identical consecutive characters is a block
  \<open>replicate n c\<close> inside the text. The words of condition 5 are the whitespace-split
  words longer than 2 characters, lower-cased and stripped of punctuation at both ends.
\<close>

definition has_run :: "nat \<Rightarrow> ustr \<Rightarrow> bool" where
  "has_run n t \<longleftrightarrow> (\<exists>c \<in> set t. sublist (replicate n c) t)"

definition alnum_or_space_ratio :: "unicode_db \<Rightarrow> ustr \<Rightarrow> real" where
  "alnum_or_space_ratio U t =
     real (length (filter (\<lambda>c. isalnum U c \<or> isspace c) t)) / real (length t)"

definition punctuation_count :: "unicode_db \<Rightarrow> ustr \<Rightarrow> nat" where
  "punctuation_count U t = length (filter (\<lambda>c. \<not> (isalnum U c \<or> isspace c)) t)"

definition normalized_words :: "unicode_db \<Rightarrow> ustr \<Rightarrow> ustr set" where
  "normalized_words U t =
     (\<lambda>w. py_strip_chars PUNCTUATION (py_lower U w)) ` {w \<in> set (py_split t). length w > 2}"

definition fails_length :: "ustr \<Rightarrow> bool" where
  "fails_length t \<longleftrightarrow> length t < 50"

definition fails_words :: "ustr \<Rightarrow> bool" where
  "fails_words t \<longleftrightarrow> length (py_split t) < 10"

definition fails_ratio :: "unicode_db \<Rightarrow> ustr \<Rightarrow> bool" where
  "fails_ratio U t \<longleftrightarrow> alnum_or_space_ratio U t < 0.5"

definition fails_repetition :: "ustr \<Rightarrow> bool" where
  "fails_repetition t \<longleftrightarrow> has_run 6 t"

definition fails_variety :: "unicode_db \<Rightarrow> ustr \<Rightarrow> bool" where
  "fails_variety U t \<longleftrightarrow> card (normalized_words U t) < 5"

text \<open>
  The wording of condition 5 can also be read with the length bound on the normalized
  word: split, lower-case and strip every word, then keep the results longer than 2
  characters. That reading is the following set; it is compared with the source below.
\<close>

definition long_normalized_words :: "unicode_db \<Rightarrow> ustr \<Rightarrow> ustr set" where
  "long_normalized_words U t =
     set (filter (\<lambda>w. length w > 2)
            (map (\<lambda>w. py_strip_chars PUNCTUATION (py_lower U w)) (py_split t)))"

section \<open>Inputs used in the examples\<close>

text \<open>The state that the endpoint builds before it invokes the graph (analyze.py, lines
  84 to 95).\<close>

definition initial_state :: "ustr \<Rightarrow> ustr \<Rightarrow> ustr \<Rightarrow> AgentState" where
  "initial_state raw thread token =
     \<lparr>raw_text = raw, doc_type = [], simplified_explanation = [], identified_risks = [],
      action_items = [], confidence_score = 1, language = ascii ''es'', error_message = [],
      thread_id = thread, user_token = token\<rparr>"

definition short_state :: AgentState where
  "short_state = initial_state (ascii ''hola'') (ascii ''user_42_ab12cd'') (ascii ''tok'')"

text \<open>Collaborators whose model call always raises, and collaborators whose model
  always answers with a given content. The database accepts every insert.\<close>

definition failing_model :: collaborators where
  "failing_model = \<lparr>llm = (\<lambda>request. None), get_client = (\<lambda>token. ClientOk),
                     insert_ok = (\<lambda>row. True)\<rparr>"

definition canned_model :: "ustr \<Rightarrow> collaborators" where
  "canned_model content = \<lparr>llm = (\<lambda>request. Some content), get_client = (\<lambda>token. ClientOk),
                            insert_ok = (\<lambda>row. True)\<rparr>"

text \<open>A state whose \<^verbatim>\<open>error_message\<close> is one space, and one whose message is
  \<^verbatim>\<open>"x"\<close> and that already carries a risk.\<close>

definition blank_error_state :: AgentState where
  "blank_error_state = short_state\<lparr>error_message := ascii '' ''\<rparr>"

definition x_error_state :: AgentState where
  "x_error_state = short_state\<lparr>error_message := ascii ''x'', identified_risks := [ascii ''old'']\<rparr>"

definition old_risk_state :: AgentState where
  "old_risk_state =
     short_state\<lparr>identified_risks := [ascii ''old''], action_items := [ascii ''a'', ascii ''b'']\<rparr>"

text \<open>Three texts: 48 exclamation marks followed by 12 letters (60 characters, one
  word); the same 48 marks and 3 letters spread over ten words (60 characters); and a
  text of eleven words that starts with seven letters a.\<close>

definition punctuation_one_word :: ustr where
  "punctuation_one_word = ascii ''!!!!!!!!!!!!!!!!!!!!!!!!!!!!!!!!!!!!!!!!!!!!!!!!aaaaaaaaaaaa''"

definition punctuation_ten_words :: ustr where
  "punctuation_ten_words = ascii ''!!!!! !!!!! !!!!! !!!!! !!!!! !!!!! !!!!! !!!!! !!!! !!!!abc''"

definition repeated_text :: ustr where
  "repeated_text = ascii ''aaaaaaa bbbbbb cccccc dddddd eeeeee ffffff gggggg hh ii jj kk''"

text \<open>A text that passes all five checks.\<close>

definition good_text :: ustr where
  "good_text = ascii ''Este contrato de arrendamiento fija la renta mensual y el plazo del inquilino''"

text \<open>Three more texts for the gate: the passing text behind seven spaces; ten words
  of four number signs and two letters each, alone and behind twelve alternating spaces
  and tabs; and five one-letter words in parentheses followed by twelve two-letter
  words.\<close>

definition padded_good_text :: ustr where
  "padded_good_text = ascii ''       '' @ good_text"

definition noise_words :: ustr where
  "noise_words = ascii ''####ab ####cd ####ef ####gh ####ij ####kl ####mn ####op ####qr ####st''"

definition padded_noise_text :: ustr where
  "padded_noise_text = [32, 9, 32, 9, 32, 9, 32, 9, 32, 9, 32, 9] @ noise_words"

definition bracket_text :: ustr where
  "bracket_text = ascii ''(a) (b) (c) (d) (e) xy zz xy zz xy zz xy zz xy zz xy zz''"

definition state_with_text :: "ustr \<Rightarrow> AgentState" where
  "state_with_text raw = initial_state raw (ascii ''user_42_ab12cd'') (ascii ''tok'')"

text \<open>The model output of the classification example of the specification; 205 is
  the accented capital I.\<close>

definition classification_output :: ustr where
  "classification_output =
     ascii ''TIPO: Contrato de arrendamiento'' @ [NL] @ ascii ''CATEGOR'' @ [205] @ ascii ''A: LEGAL''
     @ [NL] @ ascii ''IDIOMA: es''"

text \<open>A model output with a leading space and no section header; collaborators whose
  database is not configured (no client); and a state whose thread id has no
  \<^verbatim>\<open>user_\<close> prefix.\<close>

definition padded_output :: ustr where
  "padded_output = ascii '' hola''"



text \<open>Four more classification outputs: one whose only line is indented, one without
  either prefix, and two in which a prefix occurs twice.\<close>

definition indented_output :: ustr where
  "indented_output = ascii '' IDIOMA: EN''"

definition no_prefix_output :: ustr where
  "no_prefix_output = ascii ''CATEGORIA: LEGAL''"

definition duplicate_tipo_output :: ustr where
  "duplicate_tipo_output = ascii ''TIPO: a'' @ [NL] @ ascii ''TIPO: b'' @ [NL] @ ascii ''fin''"

definition duplicate_idioma_output :: ustr where
  "duplicate_idioma_output =
     ascii ''IDIOMA: es'' @ [NL] @ ascii ''IDIOMA: EN'' @ [NL] @ ascii ''fin''"

section \<open>Well-formed analysis output, as the prompt asks for it\<close>










section \<open>Facts about the string functions\<close>

lemma py_strip_Nil_iff: "py_strip s = [] \<longleftrightarrow> (\<forall>c \<in> set s. isspace c)"
proof
  assume "py_strip s = []"
  then have a: "\<forall>c \<in> set (dropWhile isspace s). isspace c"
    by (simp add: py_strip_def dropWhile_eq_Nil_conv)
  show "\<forall>c \<in> set s. isspace c"
  proof (cases "dropWhile isspace s")
    case Nil
    then show ?thesis by (simp add: dropWhile_eq_Nil_conv)
  next
    case (Cons x xs)
    then have "\<not> isspace x" using hd_dropWhile [of isspace s] by simp
    moreover have "isspace x" using a Cons by simp
    ultimately show ?thesis by simp
  qed
next
  assume "\<forall>c \<in> set s. isspace c"
  then have d: "dropWhile isspace s = []" by (simp add: dropWhile_eq_Nil_conv)
  show "py_strip s = []" unfolding py_strip_def d by simp
qed

lemma has_error_iff: "has_error state \<longleftrightarrow> py_strip (error_message state) \<noteq> []"
  by (auto simp: has_error_def py_strip_Nil_iff)

lemma not_blank_hd: "s \<noteq> [] \<Longrightarrow> \<not> isspace (hd s) \<Longrightarrow> py_strip s \<noteq> []"
  by (cases s) (auto simp: py_strip_Nil_iff)

lemma msgs_not_blank:
  "py_strip MSG_TOO_SHORT \<noteq> []" "py_strip MSG_FEW_WORDS \<noteq> []" "py_strip MSG_NOISE \<noteq> []"
  "py_strip MSG_REPEATED \<noteq> []" "py_strip MSG_REPETITIVE \<noteq> []"
  "py_strip MSG_CLASSIFY_FAILED \<noteq> []"
  by (rule not_blank_hd;
      simp add: MSG_TOO_SHORT_def MSG_FEW_WORDS_def MSG_NOISE_def MSG_REPEATED_def
        MSG_REPETITIVE_def MSG_CLASSIFY_FAILED_def ascii_def isspace_def)+

lemma quality_checks_msg:
  "quality_checks U raw = Some msg \<Longrightarrow>
     msg \<in> {MSG_TOO_SHORT, MSG_FEW_WORDS, MSG_NOISE, MSG_REPEATED, MSG_REPETITIVE}"
  by (auto simp: quality_checks_def Let_def split: if_splits)

lemma strip_hola: "py_strip (ascii ''hola'') = ascii ''hola''"
  by (simp add: py_strip_def ascii_def isspace_def)

lemma quality_checks_hola: "quality_checks U (ascii ''hola'') = Some MSG_TOO_SHORT"
  by (simp add: quality_checks_def strip_hola MIN_TEXT_LENGTH_def) (simp add: ascii_def)

section \<open>The run detector\<close>

lemma prefix_replicate_iff:
  "prefix (replicate n x) xs \<longleftrightarrow> n \<le> length (takeWhile (\<lambda>y. y = x) xs)"
proof (induction xs arbitrary: n)
  case Nil
  then show ?case by simp
next
  case (Cons a xs)
  show ?case
  proof (cases n)
    case 0
    then show ?thesis by simp
  next
    case (Suc k)
    then show ?thesis using Cons [of k] by simp
  qed
qed


lemma sublist_replicate_mem: "sublist (replicate (Suc n) c) ys \<Longrightarrow> c \<in> set ys"
proof -
  assume "sublist (replicate (Suc n) c) ys"
  then have "set (replicate (Suc n) c) \<subseteq> set ys" by (rule set_mono_sublist)
  then show ?thesis by simp
qed

lemma has_run_unbounded: "has_run (Suc n) t \<longleftrightarrow> (\<exists>c. sublist (replicate (Suc n) c) t)"
  unfolding has_run_def using sublist_replicate_mem by (metis)

lemma prefix_replicate_Cons:
  "prefix (replicate (Suc n) c) (x # xs) \<longleftrightarrow> c = x \<and> prefix (replicate n x) xs"
  by (simp only: replicate_Suc Cons_prefix_Cons) blast

lemma has_run_Cons:
  "has_run (Suc n) (x # xs) \<longleftrightarrow>
     n \<le> length (takeWhile (\<lambda>y. y = x) xs) \<or> has_run (Suc n) xs"
proof -
  have "has_run (Suc n) (x # xs) \<longleftrightarrow>
          (\<exists>c. prefix (replicate (Suc n) c) (x # xs) \<or> sublist (replicate (Suc n) c) xs)"
    by (simp only: has_run_unbounded sublist_Cons_right)
  also have "\<dots> \<longleftrightarrow> prefix (replicate n x) xs \<or> (\<exists>c. sublist (replicate (Suc n) c) xs)"
    by (simp only: prefix_replicate_Cons) blast
  finally show ?thesis
    by (simp only: has_run_unbounded prefix_replicate_iff)
qed

lemma max_repeat_loop_run:
  "1 \<le> k \<Longrightarrow> (2 \<le> k \<longrightarrow> k \<le> m) \<Longrightarrow>
   5 < max_repeat_loop xs m (Some c) k \<longleftrightarrow>
     5 < m \<or> 5 < k + length (takeWhile (\<lambda>y. y = c) xs) \<or> has_run 6 xs"
proof (induction xs arbitrary: m c k)
  case Nil
  have "\<not> has_run 6 []" by (simp add: has_run_def)
  with Nil show ?case by simp arith
next
  case (Cons x xs)
  define H where "H = has_run 6 xs"
  define Lx where "Lx = length (takeWhile (\<lambda>y. y = x) xs)"
  have six: "has_run 6 (x # xs) \<longleftrightarrow> 5 \<le> Lx \<or> H"
    using has_run_Cons [of 5 x xs] by (simp add: H_def Lx_def)
  show ?case
  proof (cases "x = c")
    case True
    have tw: "length (takeWhile (\<lambda>y. y = c) (x # xs)) = Suc Lx"
      using True by (simp add: Lx_def)
    have "5 < max_repeat_loop (x # xs) m (Some c) k \<longleftrightarrow>
          5 < max_repeat_loop xs (max m (k + 1)) (Some c) (k + 1)"
      using True by simp
    also have "\<dots> \<longleftrightarrow> 5 < max m (k + 1) \<or> 5 < (k + 1) + length (takeWhile (\<lambda>y. y = c) xs) \<or> has_run 6 xs"
      by (rule Cons.IH) (use Cons.prems in \<open>simp_all add: max_def\<close>)
    also have "\<dots> \<longleftrightarrow> 5 < max m (k + 1) \<or> 5 < (k + 1) + Lx \<or> H"
      using True by (simp add: H_def Lx_def)
    also have "\<dots> \<longleftrightarrow> 5 < m \<or> 5 < k + Suc Lx \<or> (5 \<le> Lx \<or> H)"
      using Cons.prems(1) by (cases H) (simp_all add: max_def, arith)
    finally show ?thesis by (simp only: tw six)
  next
    case False
    have tw: "length (takeWhile (\<lambda>y. y = c) (x # xs)) = 0"
      using False by simp
    have "5 < max_repeat_loop (x # xs) m (Some c) k \<longleftrightarrow>
          5 < max_repeat_loop xs m (Some x) 1"
      using False by simp
    also have "\<dots> \<longleftrightarrow> 5 < m \<or> 5 < 1 + length (takeWhile (\<lambda>y. y = x) xs) \<or> has_run 6 xs"
      by (rule Cons.IH) simp_all
    also have "\<dots> \<longleftrightarrow> 5 < m \<or> 5 < 1 + Lx \<or> H"
      by (simp add: H_def Lx_def)
    also have "\<dots> \<longleftrightarrow> 5 < m \<or> 5 < k + 0 \<or> (5 \<le> Lx \<or> H)"
      using Cons.prems by (cases H) (simp_all, arith)
    finally show ?thesis by (simp only: tw six)
  qed
qed

lemma max_repeat_has_run: "5 < max_repeat_loop t 0 None 0 \<longleftrightarrow> has_run 6 t"
proof (cases t)
  case Nil
  then show ?thesis by (simp add: has_run_def)
next
  case (Cons x xs)
  have "5 < max_repeat_loop xs 0 (Some x) 1 \<longleftrightarrow>
          5 < (0::nat) \<or> 5 < 1 + length (takeWhile (\<lambda>y. y = x) xs) \<or> has_run 6 xs"
    by (rule max_repeat_loop_run) simp_all
  moreover have "max_repeat_loop t 0 None 0 = max_repeat_loop xs 0 (Some x) 1"
    using Cons by simp
  moreover have "has_run 6 t \<longleftrightarrow> 5 \<le> length (takeWhile (\<lambda>y. y = x) xs) \<or> has_run 6 xs"
    using has_run_Cons [of 5 x xs] Cons by simp
  ultimately show ?thesis by (simp only:) arith
qed

lemma has_run_mono: "has_run (Suc n) t \<Longrightarrow> has_run n t"
proof -
  assume "has_run (Suc n) t"
  then obtain c where c: "c \<in> set t" "sublist (replicate (Suc n) c) t"
    unfolding has_run_def by blast
  have "sublist (replicate n c) (replicate (Suc n) c)"
    by (simp only: replicate_Suc sublist_Cons_right) simp
  then have "sublist (replicate n c) t"
    using c(2) by (rule sublist_order.order_trans)
  then show ?thesis unfolding has_run_def using c(1) by blast
qed

section \<open>The quality gate\<close>

lemma msgs_distinct:
  "distinct [MSG_TOO_SHORT, MSG_FEW_WORDS, MSG_NOISE, MSG_REPEATED, MSG_REPETITIVE]"
  by (simp add: MSG_TOO_SHORT_def MSG_FEW_WORDS_def MSG_NOISE_def MSG_REPEATED_def
        MSG_REPETITIVE_def ascii_def)

lemma quality_checks_cascade:
  "quality_checks U raw =
     (if fails_length (py_strip raw) then Some MSG_TOO_SHORT
      else if fails_words (py_strip raw) then Some MSG_FEW_WORDS
      else if fails_ratio U (py_strip raw) then Some MSG_NOISE
      else if fails_repetition (py_strip raw) then Some MSG_REPEATED
      else if fails_variety U (py_strip raw) then Some MSG_REPETITIVE
      else None)"
proof -
  define t where "t = py_strip raw"
  define R where "R \<longleftrightarrow> length t > 0 \<and>
     real (length (filter (\<lambda>c. isalnum U c \<or> isspace c) t)) / real (length t) < 0.5"
  have 1: "t = [] \<or> length t < MIN_TEXT_LENGTH \<longleftrightarrow> fails_length t"
    by (auto simp: fails_length_def MIN_TEXT_LENGTH_def)
  have 2: "length (py_split t) < MIN_WORDS \<longleftrightarrow> fails_words t"
    by (simp add: fails_words_def MIN_WORDS_def)
  have 3: "R \<longleftrightarrow> fails_ratio U t" if "\<not> fails_length t"
    using that by (auto simp: R_def fails_ratio_def alnum_or_space_ratio_def fails_length_def)
  have 4: "max_repeat_loop t 0 None 0 > 5 \<longleftrightarrow> fails_repetition t"
    by (simp only: fails_repetition_def max_repeat_has_run)
  have "set (map (\<lambda>word. py_strip_chars PUNCTUATION (py_lower U word))
                 (filter (\<lambda>word. length word > 2) (py_split t))) = normalized_words U t"
    by (simp only: set_map set_filter normalized_words_def)
  then have 5: "card (set (map (\<lambda>word. py_strip_chars PUNCTUATION (py_lower U word))
                 (filter (\<lambda>word. length word > 2) (py_split t)))) < 5 \<longleftrightarrow> fails_variety U t"
    by (simp only: fails_variety_def)
  have r: "quality_checks U raw =
     (if fails_length t then Some MSG_TOO_SHORT
      else if fails_words t then Some MSG_FEW_WORDS
      else if R then Some MSG_NOISE
      else if fails_repetition t then Some MSG_REPEATED
      else if fails_variety U t then Some MSG_REPETITIVE
      else None)"
    unfolding quality_checks_def Let_def t_def [symmetric] R_def
    by (simp only: 1 2 4 5)
  show ?thesis
  proof (cases "fails_length t")
    case True
    then show ?thesis unfolding t_def [symmetric] r by simp
  next
    case False
    then show ?thesis unfolding t_def [symmetric] r using 3 [OF False] by simp
  qed
qed

lemma filter_count_split:
  "length (filter P t) + length (filter (\<lambda>c. \<not> P c) t) = length t"
  by (induction t) simp_all

lemma ex_strip:
  "py_strip punctuation_one_word = punctuation_one_word"
  "py_strip punctuation_ten_words = punctuation_ten_words"
  "py_strip repeated_text = repeated_text"
  by (simp_all add: py_strip_def punctuation_one_word_def punctuation_ten_words_def
        repeated_text_def ascii_def isspace_def)

lemma ex_length:
  "length punctuation_one_word = 60" "length punctuation_ten_words = 60"
  "length repeated_text = 61"
  by (simp_all add: punctuation_one_word_def punctuation_ten_words_def repeated_text_def ascii_def)

lemma ex_words:
  "length (py_split punctuation_one_word) = 1"
  "length (py_split punctuation_ten_words) = 10"
  "length (py_split repeated_text) = 11"
  by (simp_all add: py_split_def punctuation_one_word_def punctuation_ten_words_def
        repeated_text_def ascii_def isspace_def)

lemma ex_punct:
  "punctuation_count ascii_db punctuation_one_word = 48"
  "punctuation_count ascii_db punctuation_ten_words = 48"
  "punctuation_count ascii_db repeated_text = 0"
  by (simp_all add: punctuation_count_def punctuation_one_word_def punctuation_ten_words_def
        repeated_text_def ascii_def isspace_def isalnum_def)

lemma ex_run: "has_run 7 repeated_text"
proof -
  have "prefix (replicate 7 97) repeated_text"
    by (simp add: repeated_text_def ascii_def numeral_eq_Suc)
  then have "sublist (replicate 7 97) repeated_text" by (rule prefix_imp_sublist)
  moreover have "97 \<in> set repeated_text" by (simp add: repeated_text_def ascii_def)
  ultimately show ?thesis unfolding has_run_def by blast
qed

lemma ex_ratio: "\<not> fails_ratio ascii_db repeated_text"
proof -
  have "length (filter (\<lambda>c. isalnum ascii_db c \<or> isspace c) repeated_text) +
          punctuation_count ascii_db repeated_text = length repeated_text"
    unfolding punctuation_count_def by (rule filter_count_split)
  then have "length (filter (\<lambda>c. isalnum ascii_db c \<or> isspace c) repeated_text) = 61"
    by (simp add: ex_punct ex_length)
  then show ?thesis
    by (simp add: fails_ratio_def alnum_or_space_ratio_def ex_length)
qed

subsection \<open>A text that passes the gate\<close>

lemma good_strip: "py_strip good_text = good_text"
  by (simp add: py_strip_def good_text_def ascii_def isspace_def)

lemma good_length: "length good_text = 77"
  by (simp add: good_text_def ascii_def)

lemma good_words:
  "py_split good_text =
     [ascii ''Este'', ascii ''contrato'', ascii ''de'', ascii ''arrendamiento'', ascii ''fija'',
      ascii ''la'', ascii ''renta'', ascii ''mensual'', ascii ''y'', ascii ''el'', ascii ''plazo'',
      ascii ''del'', ascii ''inquilino'']"
  by (simp add: py_split_def good_text_def ascii_def isspace_def)

lemma good_punct: "punctuation_count ascii_db good_text = 0"
  by (simp add: punctuation_count_def good_text_def ascii_def isspace_def isalnum_def)

lemma good_repeat: "max_repeat_loop good_text 0 None 0 = 2"
  by (simp add: good_text_def ascii_def)

lemma good_lower:
  "py_lower ascii_db (ascii ''Este'') = ascii ''este''"
    "py_lower ascii_db (ascii ''contrato'') = ascii ''contrato''"
    "py_lower ascii_db (ascii ''arrendamiento'') = ascii ''arrendamiento''"
    "py_lower ascii_db (ascii ''fija'') = ascii ''fija''"
    "py_lower ascii_db (ascii ''renta'') = ascii ''renta''"
    "py_lower ascii_db (ascii ''mensual'') = ascii ''mensual''"
    "py_lower ascii_db (ascii ''plazo'') = ascii ''plazo''"
    "py_lower ascii_db (ascii ''del'') = ascii ''del''"
    "py_lower ascii_db (ascii ''inquilino'') = ascii ''inquilino''"
  by (simp_all add: py_lower_def ascii_def)

lemma good_strip_chars:
    "py_strip_chars PUNCTUATION (ascii ''este'') = ascii ''este''"
    "py_strip_chars PUNCTUATION (ascii ''contrato'') = ascii ''contrato''"
    "py_strip_chars PUNCTUATION (ascii ''arrendamiento'') = ascii ''arrendamiento''"
    "py_strip_chars PUNCTUATION (ascii ''fija'') = ascii ''fija''"
    "py_strip_chars PUNCTUATION (ascii ''renta'') = ascii ''renta''"
    "py_strip_chars PUNCTUATION (ascii ''mensual'') = ascii ''mensual''"
    "py_strip_chars PUNCTUATION (ascii ''plazo'') = ascii ''plazo''"
    "py_strip_chars PUNCTUATION (ascii ''del'') = ascii ''del''"
    "py_strip_chars PUNCTUATION (ascii ''inquilino'') = ascii ''inquilino''"
  by (simp_all add: py_strip_chars_def PUNCTUATION_def ascii_def)

lemma good_filter:
  "filter (\<lambda>w. length w > 2) (py_split good_text) =
      [ascii ''Este'', ascii ''contrato'', ascii ''arrendamiento'', ascii ''fija'',
       ascii ''renta'', ascii ''mensual'', ascii ''plazo'', ascii ''del'', ascii ''inquilino'']"
  unfolding good_words by (simp add: ascii_def)

lemma good_distinct:
  "distinct [ascii ''este'', ascii ''contrato'', ascii ''arrendamiento'', ascii ''fija'',
       ascii ''renta'', ascii ''mensual'', ascii ''plazo'', ascii ''del'', ascii ''inquilino'']"
  by (simp add: ascii_def)

lemma good_variety: "\<not> fails_variety ascii_db good_text"
proof -
  have m: "map (\<lambda>w. py_strip_chars PUNCTUATION (py_lower ascii_db w))
                 (filter (\<lambda>w. length w > 2) (py_split good_text)) =
      [ascii ''este'', ascii ''contrato'', ascii ''arrendamiento'', ascii ''fija'',
       ascii ''renta'', ascii ''mensual'', ascii ''plazo'', ascii ''del'', ascii ''inquilino'']"
    unfolding good_filter by (simp only: list.map good_lower good_strip_chars)
  have "normalized_words ascii_db good_text =
          set (map (\<lambda>w. py_strip_chars PUNCTUATION (py_lower ascii_db w))
                 (filter (\<lambda>w. length w > 2) (py_split good_text)))"
    by (simp only: set_map set_filter normalized_words_def)
  then have "card (normalized_words ascii_db good_text) = 9"
    unfolding m using distinct_card [OF good_distinct] by simp
  then show ?thesis by (simp add: fails_variety_def)
qed

lemma good_passes: "quality_checks ascii_db good_text = None"
proof -
  have 1: "\<not> fails_length good_text" by (simp add: fails_length_def good_length)
  have 2: "\<not> fails_words good_text" by (simp add: fails_words_def good_words)
  have "length (filter (\<lambda>c. isalnum ascii_db c \<or> isspace c) good_text) +
          punctuation_count ascii_db good_text = length good_text"
    unfolding punctuation_count_def by (rule filter_count_split)
  then have "length (filter (\<lambda>c. isalnum ascii_db c \<or> isspace c) good_text) = 77"
    by (simp add: good_punct good_length)
  then have 3: "\<not> fails_ratio ascii_db good_text"
    by (simp add: fails_ratio_def alnum_or_space_ratio_def good_length)
  have 4: "\<not> fails_repetition good_text"
    using max_repeat_has_run [of good_text] by (simp add: fails_repetition_def good_repeat)
  show ?thesis
    by (simp add: quality_checks_cascade good_strip 1 2 3 4 good_variety)
qed

subsection \<open>Trimming and the five conditions\<close>

text \<open>
  The source computes every check on the trimmed text. The whitespace-split words, and
  with them the word count and the normalized words, are the same for a text and its
  trimmed form, and so is the number of punctuation characters; the length, the ratio
  and the runs are not.
\<close>

lemma split_ws_spaces:
  "\<forall>c \<in> set ws. isspace c \<Longrightarrow> split_ws ws cur = (if cur = [] then [] else [cur])"
  by (induction ws arbitrary: cur) simp_all

lemma split_ws_trailing: "\<forall>c \<in> set ws. isspace c \<Longrightarrow> split_ws (s @ ws) cur = split_ws s cur"
  by (induction s arbitrary: cur) (simp_all add: split_ws_spaces)

lemma split_ws_leading: "split_ws (dropWhile isspace s) [] = split_ws s []"
  by (induction s) simp_all

lemma py_split_strip: "py_split (py_strip s) = py_split s"
proof -
  define t where "t = dropWhile isspace s"
  define core where "core = rev (dropWhile isspace (rev t))"
  define tail where "tail = rev (takeWhile isspace (rev t))"
  have "rev t = takeWhile isspace (rev t) @ dropWhile isspace (rev t)"
    by simp
  then have "rev (rev t) = rev (takeWhile isspace (rev t) @ dropWhile isspace (rev t))"
    by (rule arg_cong)
  then have t: "t = core @ tail"
    by (simp only: rev_rev_ident rev_append core_def tail_def)
  have "\<forall>c \<in> set tail. isspace c"
    unfolding tail_def by (auto dest: set_takeWhileD)
  then have "split_ws (core @ tail) [] = split_ws core []"
    by (rule split_ws_trailing)
  then have "split_ws t [] = split_ws core []"
    by (simp only: t)
  then show ?thesis
    by (simp only: py_split_def py_strip_def t_def [symmetric] core_def [symmetric])
       (simp add: t_def split_ws_leading)
qed

lemma words_strip:
  "fails_words (py_strip s) = fails_words s" "fails_variety U (py_strip s) = fails_variety U s"
  by (simp_all add: fails_words_def fails_variety_def normalized_words_def py_split_strip)

lemma filter_dropWhile_other:
  "(\<And>c. Q c \<Longrightarrow> \<not> P c) \<Longrightarrow> filter Q (dropWhile P s) = filter Q s"
  by (induction s) auto

lemma punctuation_count_strip: "punctuation_count U (py_strip s) = punctuation_count U s"
proof -
  define Q where "Q = (\<lambda>c. \<not> (isalnum U c \<or> isspace c))"
  have q: "Q c \<Longrightarrow> \<not> isspace c" for c by (simp add: Q_def)
  have "filter Q (py_strip s) = rev (filter Q (dropWhile isspace (rev (dropWhile isspace s))))"
    by (simp add: py_strip_def rev_filter)
  also have "\<dots> = rev (filter Q (rev (dropWhile isspace s)))"
    by (simp only: filter_dropWhile_other [of Q isspace, OF q])
  also have "\<dots> = filter Q (dropWhile isspace s)"
    by (simp add: rev_filter)
  also have "\<dots> = filter Q s"
    by (simp only: filter_dropWhile_other [of Q isspace, OF q])
  finally show ?thesis by (simp add: punctuation_count_def Q_def)
qed

lemma length_strip_le: "length (py_strip s) \<le> length s"
proof -
  have "length (py_strip s) \<le> length (dropWhile isspace s)"
    using length_dropWhile_le [of isspace "rev (dropWhile isspace s)"] by (simp add: py_strip_def)
  also have "\<dots> \<le> length s" by (rule length_dropWhile_le)
  finally show ?thesis .
qed

lemma split_ws_bound: "length (split_ws s cur) \<le> Suc (length (filter isspace s))"
proof (induction s arbitrary: cur)
  case Nil
  then show ?case by simp
next
  case (Cons c cs)
  show ?case
  proof (cases "isspace c")
    case True
    then show ?thesis using Cons [of "[]"] by simp
  next
    case False
    then show ?thesis using Cons [of "cur @ [c]"] by simp
  qed
qed

lemma filter_disjoint_le:
  "(\<And>c. P c \<Longrightarrow> \<not> Q c) \<Longrightarrow> length (filter P s) + length (filter Q s) \<le> length s"
  by (induction s) auto


lemma mostly_punctuation_raw:
  assumes "length raw = 60" and "punctuation_count U raw = 48" and "\<not> fails_words raw"
  shows "\<not> fails_length (py_strip raw)" and "fails_ratio U (py_strip raw)"
proof -
  define t where "t = py_strip raw"
  define k where "k = length (filter (\<lambda>c. isalnum U c \<or> isspace c) t)"
  have p: "punctuation_count U t = 48"
    by (simp add: t_def punctuation_count_strip assms(2))
  have le: "length t \<le> 60"
    using length_strip_le [of raw] by (simp add: t_def assms(1))
  have "10 \<le> length (py_split t)"
    using assms(3) by (simp add: t_def py_split_strip fails_words_def)
  then have sp: "9 \<le> length (filter isspace t)"
    using split_ws_bound [of t "[]"] by (simp add: py_split_def)
  have "length (filter isspace t) + punctuation_count U t \<le> length t"
    unfolding punctuation_count_def by (rule filter_disjoint_le) simp
  then have ge: "57 \<le> length t" using sp p by simp
  show "\<not> fails_length (py_strip raw)"
    using ge by (simp add: fails_length_def t_def)
  have "k + punctuation_count U t = length t"
    unfolding punctuation_count_def k_def by (rule filter_count_split)
  then have "2 * k < length t" using p le ge by simp
  then have "real (2 * k) < real (length t)" by (simp only: of_nat_less_iff)
  moreover have "0 < real (length t)" using ge by (cases t) simp_all
  ultimately have "real k / real (length t) < 1 / 2" by (simp add: field_simps)
  then show "fails_ratio U (py_strip raw)"
    by (simp add: fails_ratio_def alnum_or_space_ratio_def k_def t_def)
qed

subsection \<open>Four texts on which the conditions read on the input differ from the gate\<close>

lemma good_conditions:
  "\<not> fails_length good_text" "\<not> fails_words good_text" "\<not> fails_ratio ascii_db good_text"
  "\<not> fails_repetition good_text" "\<not> fails_variety ascii_db good_text"
  using good_passes quality_checks_cascade [of ascii_db good_text]
  by (simp_all add: good_strip split: if_splits)

lemma padded_good_strip: "py_strip padded_good_text = good_text"
  by (simp add: padded_good_text_def good_text_def py_strip_def ascii_def isspace_def)

lemma padded_good_passes: "quality_checks ascii_db padded_good_text = None"
  by (simp add: quality_checks_cascade padded_good_strip good_conditions)

lemma padded_good_run: "has_run 7 padded_good_text" "has_run 6 padded_good_text"
proof -
  have "prefix (replicate 7 32) padded_good_text"
    by (simp add: padded_good_text_def ascii_def numeral_eq_Suc)
  then have "sublist (replicate 7 32) padded_good_text" by (rule prefix_imp_sublist)
  moreover have "32 \<in> set padded_good_text" by (simp add: padded_good_text_def ascii_def)
  ultimately show 7: "has_run 7 padded_good_text" unfolding has_run_def by blast
  have "has_run (Suc 6) padded_good_text" using 7 by simp
  then show "has_run 6 padded_good_text" by (rule has_run_mono)
qed

lemma ratio_from_punctuation:
  "2 * punctuation_count U s \<le> length s \<Longrightarrow> s \<noteq> [] \<Longrightarrow> \<not> fails_ratio U s"
proof -
  assume a: "2 * punctuation_count U s \<le> length s" and n: "s \<noteq> []"
  define k where "k = length (filter (\<lambda>c. isalnum U c \<or> isspace c) s)"
  have "k + punctuation_count U s = length s"
    unfolding punctuation_count_def k_def by (rule filter_count_split)
  then have "length s \<le> 2 * k" using a by simp
  then have "real (length s) \<le> real (2 * k)" by (simp only: of_nat_le_iff)
  moreover have "0 < real (length s)" using n by (cases s) simp_all
  ultimately have "\<not> real k / real (length s) < 1 / 2" by (simp add: field_simps)
  then show ?thesis by (simp add: fails_ratio_def alnum_or_space_ratio_def k_def)
qed

lemma padded_good_literal:
  "\<not> fails_length (py_strip padded_good_text)" "\<not> fails_words padded_good_text"
  "\<not> fails_ratio ascii_db padded_good_text"
proof -
  show "\<not> fails_length (py_strip padded_good_text)"
    by (simp add: padded_good_strip good_conditions)
  show "\<not> fails_words padded_good_text"
    using words_strip(1) [of padded_good_text] by (simp add: padded_good_strip good_conditions)
  have "punctuation_count ascii_db padded_good_text = 0"
    using punctuation_count_strip [of ascii_db padded_good_text]
    by (simp add: padded_good_strip good_punct)
  then show "\<not> fails_ratio ascii_db padded_good_text"
    by (intro ratio_from_punctuation) (simp_all add: padded_good_text_def ascii_def)
qed

lemma noise_strip: "py_strip padded_noise_text = noise_words"
  by (simp add: padded_noise_text_def noise_words_def py_strip_def ascii_def isspace_def)

lemma noise_length: "length noise_words = 69" "length padded_noise_text = 81"
  by (simp_all add: padded_noise_text_def noise_words_def ascii_def)

lemma noise_split: "py_split noise_words = [ascii ''####ab'', ascii ''####cd'', ascii ''####ef'', ascii ''####gh'', ascii ''####ij'', ascii ''####kl'', ascii ''####mn'', ascii ''####op'', ascii ''####qr'', ascii ''####st'']"
  by (simp add: py_split_def noise_words_def ascii_def isspace_def)

lemma noise_punct: "punctuation_count ascii_db noise_words = 40"
  by (simp add: punctuation_count_def noise_words_def ascii_def isspace_def isalnum_def)

lemma noise_repeat: "max_repeat_loop padded_noise_text 0 None 0 = 4"
  by (simp add: padded_noise_text_def noise_words_def ascii_def)

lemma noise_normal:
  "map (\<lambda>w. py_strip_chars PUNCTUATION (py_lower ascii_db w)) [ascii ''####ab'', ascii ''####cd'', ascii ''####ef'', ascii ''####gh'', ascii ''####ij'', ascii ''####kl'', ascii ''####mn'', ascii ''####op'', ascii ''####qr'', ascii ''####st''] = [ascii ''####ab'', ascii ''####cd'', ascii ''####ef'', ascii ''####gh'', ascii ''####ij'', ascii ''####kl'', ascii ''####mn'', ascii ''####op'', ascii ''####qr'', ascii ''####st'']"
  by (simp add: py_lower_def py_strip_chars_def PUNCTUATION_def ascii_def)

lemma noise_distinct: "distinct [ascii ''####ab'', ascii ''####cd'', ascii ''####ef'', ascii ''####gh'', ascii ''####ij'', ascii ''####kl'', ascii ''####mn'', ascii ''####op'', ascii ''####qr'', ascii ''####st'']"
  by (simp add: ascii_def)

lemma noise_filter: "filter (\<lambda>w. length w > 2) [ascii ''####ab'', ascii ''####cd'', ascii ''####ef'', ascii ''####gh'', ascii ''####ij'', ascii ''####kl'', ascii ''####mn'', ascii ''####op'', ascii ''####qr'', ascii ''####st''] = [ascii ''####ab'', ascii ''####cd'', ascii ''####ef'', ascii ''####gh'', ascii ''####ij'', ascii ''####kl'', ascii ''####mn'', ascii ''####op'', ascii ''####qr'', ascii ''####st'']"
  by (simp add: ascii_def)

lemma bracket_strip: "py_strip bracket_text = bracket_text"
  by (simp add: bracket_text_def py_strip_def ascii_def isspace_def)

lemma bracket_length: "length bracket_text = 55"
  by (simp add: bracket_text_def ascii_def)

lemma bracket_split: "py_split bracket_text = [ascii ''(a)'', ascii ''(b)'', ascii ''(c)'', ascii ''(d)'', ascii ''(e)'', ascii ''xy'', ascii ''zz'', ascii ''xy'', ascii ''zz'', ascii ''xy'', ascii ''zz'', ascii ''xy'', ascii ''zz'', ascii ''xy'', ascii ''zz'', ascii ''xy'', ascii ''zz'']"
  by (simp add: py_split_def bracket_text_def ascii_def isspace_def)

lemma bracket_punct: "punctuation_count ascii_db bracket_text = 10"
  by (simp add: punctuation_count_def bracket_text_def ascii_def isspace_def isalnum_def)

lemma bracket_repeat: "max_repeat_loop bracket_text 0 None 0 = 2"
  by (simp add: bracket_text_def ascii_def)

lemma bracket_filter: "filter (\<lambda>w. length w > 2) [ascii ''(a)'', ascii ''(b)'', ascii ''(c)'', ascii ''(d)'', ascii ''(e)'', ascii ''xy'', ascii ''zz'', ascii ''xy'', ascii ''zz'', ascii ''xy'', ascii ''zz'', ascii ''xy'', ascii ''zz'', ascii ''xy'', ascii ''zz'', ascii ''xy'', ascii ''zz''] = [ascii ''(a)'', ascii ''(b)'', ascii ''(c)'', ascii ''(d)'', ascii ''(e)'']"
  by (simp add: ascii_def)

lemma bracket_normal:
  "map (\<lambda>w. py_strip_chars PUNCTUATION (py_lower ascii_db w)) [ascii ''(a)'', ascii ''(b)'', ascii ''(c)'', ascii ''(d)'', ascii ''(e)''] = [ascii ''a'', ascii ''b'', ascii ''c'', ascii ''d'', ascii ''e'']"
  "map (\<lambda>w. py_strip_chars PUNCTUATION (py_lower ascii_db w)) [ascii ''(a)'', ascii ''(b)'', ascii ''(c)'', ascii ''(d)'', ascii ''(e)'', ascii ''xy'', ascii ''zz'', ascii ''xy'', ascii ''zz'', ascii ''xy'', ascii ''zz'', ascii ''xy'', ascii ''zz'', ascii ''xy'', ascii ''zz'', ascii ''xy'', ascii ''zz''] = [ascii ''a'', ascii ''b'', ascii ''c'', ascii ''d'', ascii ''e'', ascii ''xy'', ascii ''zz'', ascii ''xy'', ascii ''zz'', ascii ''xy'', ascii ''zz'', ascii ''xy'', ascii ''zz'', ascii ''xy'', ascii ''zz'', ascii ''xy'', ascii ''zz'']"
  by (simp_all add: py_lower_def py_strip_chars_def PUNCTUATION_def ascii_def)

lemma bracket_distinct: "distinct [ascii ''a'', ascii ''b'', ascii ''c'', ascii ''d'', ascii ''e'']"
  by (simp add: ascii_def)

lemma bracket_claimed_filter: "filter (\<lambda>w. length w > 2) [ascii ''a'', ascii ''b'', ascii ''c'', ascii ''d'', ascii ''e'', ascii ''xy'', ascii ''zz'', ascii ''xy'', ascii ''zz'', ascii ''xy'', ascii ''zz'', ascii ''xy'', ascii ''zz'', ascii ''xy'', ascii ''zz'', ascii ''xy'', ascii ''zz''] = []"
  by (simp add: ascii_def)


lemma normalized_words_list:
  "normalized_words U t =
     set (map (\<lambda>w. py_strip_chars PUNCTUATION (py_lower U w))
            (filter (\<lambda>w. length w > 2) (py_split t)))"
  by (simp only: set_map set_filter normalized_words_def)

lemma noise_facts:
  "\<not> fails_length (py_strip padded_noise_text)" "\<not> fails_words padded_noise_text"
  "fails_ratio ascii_db (py_strip padded_noise_text)"
  "\<not> fails_ratio ascii_db padded_noise_text" "\<not> has_run 6 padded_noise_text"
  "\<not> fails_variety ascii_db padded_noise_text"
  "\<not> card (long_normalized_words ascii_db padded_noise_text) < 5"
proof -
  have sp: "py_split padded_noise_text = py_split noise_words"
    using py_split_strip [of padded_noise_text] by (simp only: noise_strip)
  show "\<not> fails_length (py_strip padded_noise_text)"
    by (simp add: noise_strip fails_length_def noise_length)
  show "\<not> fails_words padded_noise_text"
    by (simp add: fails_words_def sp noise_split)
  have "length (filter (\<lambda>c. isalnum ascii_db c \<or> isspace c) noise_words) +
          punctuation_count ascii_db noise_words = length noise_words"
    unfolding punctuation_count_def by (rule filter_count_split)
  then have "length (filter (\<lambda>c. isalnum ascii_db c \<or> isspace c) noise_words) = 29"
    by (simp add: noise_punct noise_length)
  then show "fails_ratio ascii_db (py_strip padded_noise_text)"
    by (simp add: noise_strip fails_ratio_def alnum_or_space_ratio_def noise_length)
  have "punctuation_count ascii_db padded_noise_text = 40"
    using punctuation_count_strip [of ascii_db padded_noise_text]
    by (simp add: noise_strip noise_punct)
  then show "\<not> fails_ratio ascii_db padded_noise_text"
    by (intro ratio_from_punctuation) (simp_all add: noise_length, simp add: padded_noise_text_def)
  show "\<not> has_run 6 padded_noise_text"
    using max_repeat_has_run [of padded_noise_text] by (simp add: noise_repeat)
  have "card (set NWL) = 10"
    if "NWL = [ascii ''####ab'', ascii ''####cd'', ascii ''####ef'', ascii ''####gh'', ascii ''####ij'', ascii ''####kl'', ascii ''####mn'', ascii ''####op'', ascii ''####qr'', ascii ''####st'']" for NWL
    using distinct_card [OF noise_distinct] by (simp add: that)
  then have c: "card (set [ascii ''####ab'', ascii ''####cd'', ascii ''####ef'', ascii ''####gh'', ascii ''####ij'', ascii ''####kl'', ascii ''####mn'', ascii ''####op'', ascii ''####qr'', ascii ''####st'']) = 10"
    by simp
  have "normalized_words ascii_db padded_noise_text = set [ascii ''####ab'', ascii ''####cd'', ascii ''####ef'', ascii ''####gh'', ascii ''####ij'', ascii ''####kl'', ascii ''####mn'', ascii ''####op'', ascii ''####qr'', ascii ''####st'']"
    by (simp only: normalized_words_list sp noise_split noise_filter noise_normal)
  then have "card (normalized_words ascii_db padded_noise_text) = 10"
    by (simp only: c)
  then show "\<not> fails_variety ascii_db padded_noise_text"
    by (simp add: fails_variety_def)
  have "long_normalized_words ascii_db padded_noise_text = set [ascii ''####ab'', ascii ''####cd'', ascii ''####ef'', ascii ''####gh'', ascii ''####ij'', ascii ''####kl'', ascii ''####mn'', ascii ''####op'', ascii ''####qr'', ascii ''####st'']"
    by (simp only: long_normalized_words_def sp noise_split noise_filter noise_normal)
  then have "card (long_normalized_words ascii_db padded_noise_text) = 10"
    by (simp only: c)
  then show "\<not> card (long_normalized_words ascii_db padded_noise_text) < 5"
    by simp
qed

lemma noise_rejected: "quality_checks ascii_db padded_noise_text = Some MSG_NOISE"
  using noise_facts(1,3) words_strip(1) [of padded_noise_text] noise_facts(2)
  by (simp add: quality_checks_cascade)

lemma bracket_facts:
  "\<not> fails_length (py_strip bracket_text)" "\<not> fails_words bracket_text"
  "\<not> fails_ratio ascii_db bracket_text" "\<not> has_run 6 bracket_text"
  "\<not> fails_variety ascii_db bracket_text"
  "card (long_normalized_words ascii_db bracket_text) < 5"
proof -
  show "\<not> fails_length (py_strip bracket_text)"
    by (simp add: bracket_strip fails_length_def bracket_length)
  show "\<not> fails_words bracket_text"
    by (simp add: fails_words_def bracket_split)
  show "\<not> fails_ratio ascii_db bracket_text"
    by (intro ratio_from_punctuation) (simp_all add: bracket_punct bracket_length, simp add: bracket_text_def ascii_def)
  show "\<not> has_run 6 bracket_text"
    using max_repeat_has_run [of bracket_text] by (simp add: bracket_repeat)
  have c: "card (set [ascii ''a'', ascii ''b'', ascii ''c'', ascii ''d'', ascii ''e'']) = 5"
    using distinct_card [OF bracket_distinct] by simp
  have "normalized_words ascii_db bracket_text = set [ascii ''a'', ascii ''b'', ascii ''c'', ascii ''d'', ascii ''e'']"
    by (simp only: normalized_words_list bracket_split bracket_filter bracket_normal)
  then have "card (normalized_words ascii_db bracket_text) = 5"
    by (simp only: c)
  then show "\<not> fails_variety ascii_db bracket_text"
    by (simp add: fails_variety_def)
  have "long_normalized_words ascii_db bracket_text = set []"
    by (simp only: long_normalized_words_def bracket_split bracket_normal bracket_claimed_filter)
  then show "card (long_normalized_words ascii_db bracket_text) < 5"
    by simp
qed

lemma bracket_passes: "quality_checks ascii_db bracket_text = None"
  using bracket_facts(1,2,3,4,5)
  by (simp add: quality_checks_cascade bracket_strip fails_repetition_def)

text \<open>
  C2, as stated, names the trimmed text for the length only, reads the other conditions
  on the input text, bounds the length of the normalized word, and gives the
  60-character example without a word count. The gate differs from that at four texts.
  (1) 48 exclamation marks followed by 12 letters are 60 characters, 48 of them
  punctuation, but a single word: the word-count check of line 50 rejects first, with
  its own message. (2) The passing text behind seven spaces contains a run of 7 (and of
  6) identical characters and passes the length, word and ratio checks, yet the gate
  accepts it: line 38 trims before any run is counted. (3) The ten noise words behind
  six spaces and six tabs have a ratio of 41/81 on the input, no run of 6 and ten
  distinct words, so that none of the five conditions read on the input holds, yet the
  gate rejects with the noise message: the ratio of line 58 is that of the trimmed
  text, 29/69. (4) In the bracket text no normalized word is longer than 2 characters,
  so fewer than 5 such words exist, yet the gate accepts: line 98 tests the length of
  the word before it is stripped, and the five words in parentheses count.
\<close>

theorem quality_gate_literal_conditions_counterexample:
  "(length punctuation_one_word = 60
      \<and> punctuation_count ascii_db punctuation_one_word = 48
      \<and> quality_checks ascii_db punctuation_one_word = Some MSG_FEW_WORDS
      \<and> MSG_FEW_WORDS \<noteq> MSG_NOISE)
   \<and> (has_run 7 padded_good_text \<and> has_run 6 padded_good_text
      \<and> \<not> fails_length (py_strip padded_good_text) \<and> \<not> fails_words padded_good_text
      \<and> \<not> fails_ratio ascii_db padded_good_text
      \<and> quality_checks ascii_db padded_good_text = None)
   \<and> (\<not> fails_length (py_strip padded_noise_text) \<and> \<not> fails_words padded_noise_text
      \<and> \<not> fails_ratio ascii_db padded_noise_text \<and> \<not> has_run 6 padded_noise_text
      \<and> \<not> fails_variety ascii_db padded_noise_text
      \<and> \<not> card (long_normalized_words ascii_db padded_noise_text) < 5
      \<and> quality_checks ascii_db padded_noise_text = Some MSG_NOISE)
   \<and> (\<not> fails_length (py_strip bracket_text) \<and> \<not> fails_words bracket_text
      \<and> \<not> fails_ratio ascii_db bracket_text \<and> \<not> has_run 6 bracket_text
      \<and> card (long_normalized_words ascii_db bracket_text) < 5
      \<and> quality_checks ascii_db bracket_text = None)"
proof -
  have "\<not> fails_length punctuation_one_word"
    by (simp add: fails_length_def ex_length)
  moreover have "fails_words punctuation_one_word"
    by (simp add: fails_words_def ex_words)
  ultimately have "quality_checks ascii_db punctuation_one_word = Some MSG_FEW_WORDS"
    by (simp add: quality_checks_cascade ex_strip)
  moreover have "MSG_FEW_WORDS \<noteq> MSG_NOISE"
    using msgs_distinct by simp
  ultimately have 1: "length punctuation_one_word = 60
      \<and> punctuation_count ascii_db punctuation_one_word = 48
      \<and> quality_checks ascii_db punctuation_one_word = Some MSG_FEW_WORDS
      \<and> MSG_FEW_WORDS \<noteq> MSG_NOISE"
    by (simp add: ex_length ex_punct)
  have 2: "has_run 7 padded_good_text \<and> has_run 6 padded_good_text
      \<and> \<not> fails_length (py_strip padded_good_text) \<and> \<not> fails_words padded_good_text
      \<and> \<not> fails_ratio ascii_db padded_good_text
      \<and> quality_checks ascii_db padded_good_text = None"
    using padded_good_run padded_good_literal padded_good_passes by blast
  have 3: "\<not> fails_length (py_strip padded_noise_text) \<and> \<not> fails_words padded_noise_text
      \<and> \<not> fails_ratio ascii_db padded_noise_text \<and> \<not> has_run 6 padded_noise_text
      \<and> \<not> fails_variety ascii_db padded_noise_text
      \<and> \<not> card (long_normalized_words ascii_db padded_noise_text) < 5
      \<and> quality_checks ascii_db padded_noise_text = Some MSG_NOISE"
    using noise_facts noise_rejected by blast
  have 4: "\<not> fails_length (py_strip bracket_text) \<and> \<not> fails_words bracket_text
      \<and> \<not> fails_ratio ascii_db bracket_text \<and> \<not> has_run 6 bracket_text
      \<and> card (long_normalized_words ascii_db bracket_text) < 5
      \<and> quality_checks ascii_db bracket_text = None"
    using bracket_facts bracket_passes by blast
  show ?thesis using 1 2 3 4 by blast
qed

text \<open>
  C2, amended. With \<open>raw\<close> the input text and \<open>t\<close> the trimmed text: the gate
  rejects exactly when one of the five conditions holds, the length, the ratio and the
  run being those of \<open>t\<close>, and the words of condition 5 being the whitespace-split
  words longer than 2 characters, normalized afterwards (\<^verbatim>\<open>w.lower().strip(...)\<close>); the
  word count and the words are the same for \<open>raw\<close> and \<open>t\<close>. The checks are taken in
  the fixed order length, words, ratio, repetition, variety, and the message is that of
  the first one that fails (the five messages are pairwise different, so the message
  tells which). A 60-character input with 48 punctuation characters and at least 10
  words is rejected with the noise message, and a text whose trimmed form has a run of
  7 identical characters and passes the length, word and ratio checks is rejected with
  the repetition message. A rejection is an early return of the node without a model
  call; otherwise the node goes on to the model.
\<close>

theorem quality_gate_first_failing_check:
  "(let raw = raw_text state; t = py_strip raw; r = quality_checks U raw in
     (r \<noteq> None \<longleftrightarrow> fails_length t \<or> fails_words raw \<or> fails_ratio U t \<or> fails_repetition t
                      \<or> fails_variety U raw)
   \<and> (r = Some MSG_TOO_SHORT \<longleftrightarrow> fails_length t)
   \<and> (r = Some MSG_FEW_WORDS \<longleftrightarrow> \<not> fails_length t \<and> fails_words raw)
   \<and> (r = Some MSG_NOISE \<longleftrightarrow> \<not> fails_length t \<and> \<not> fails_words raw \<and> fails_ratio U t)
   \<and> (r = Some MSG_REPEATED \<longleftrightarrow>
         \<not> fails_length t \<and> \<not> fails_words raw \<and> \<not> fails_ratio U t \<and> fails_repetition t)
   \<and> (r = Some MSG_REPETITIVE \<longleftrightarrow>
         \<not> fails_length t \<and> \<not> fails_words raw \<and> \<not> fails_ratio U t \<and> \<not> fails_repetition t
         \<and> fails_variety U raw)
   \<and> (length raw = 60 \<and> punctuation_count U raw = 48 \<and> \<not> fails_words raw \<longrightarrow>
        r = Some MSG_NOISE)
   \<and> (has_run 7 t \<and> \<not> fails_length t \<and> \<not> fails_words raw \<and> \<not> fails_ratio U t
        \<longrightarrow> r = Some MSG_REPEATED)
   \<and> (\<forall>msg. r = Some msg \<longrightarrow> extract_and_classify_node U C state = ([], rejected state msg))
   \<and> (r = None \<longrightarrow>
        fst (extract_and_classify_node U C state) = [ModelCall (ClassifyRequest (raw_text state))]))"
proof -
  define raw where "raw = raw_text state"
  define t where "t = py_strip raw"
  define r where "r = quality_checks U raw"
  define c1 where "c1 = fails_length t"
  define c2 where "c2 = fails_words raw"
  define c3 where "c3 = fails_ratio U t"
  define c4 where "c4 = fails_repetition t"
  define c5 where "c5 = fails_variety U raw"
  have r: "r = (if c1 then Some MSG_TOO_SHORT else if c2 then Some MSG_FEW_WORDS
                else if c3 then Some MSG_NOISE else if c4 then Some MSG_REPEATED
                else if c5 then Some MSG_REPETITIVE else None)"
    unfolding r_def c1_def c2_def c3_def c4_def c5_def t_def
    by (simp only: quality_checks_cascade words_strip)
  have d: "MSG_TOO_SHORT \<noteq> MSG_FEW_WORDS" "MSG_TOO_SHORT \<noteq> MSG_NOISE"
    "MSG_TOO_SHORT \<noteq> MSG_REPEATED" "MSG_TOO_SHORT \<noteq> MSG_REPETITIVE"
    "MSG_FEW_WORDS \<noteq> MSG_NOISE" "MSG_FEW_WORDS \<noteq> MSG_REPEATED" "MSG_FEW_WORDS \<noteq> MSG_REPETITIVE"
    "MSG_NOISE \<noteq> MSG_REPEATED" "MSG_NOISE \<noteq> MSG_REPETITIVE" "MSG_REPEATED \<noteq> MSG_REPETITIVE"
    using msgs_distinct by simp_all
  have a: "r \<noteq> None \<longleftrightarrow> c1 \<or> c2 \<or> c3 \<or> c4 \<or> c5" by (simp add: r)
  have b1: "r = Some MSG_TOO_SHORT \<longleftrightarrow> c1" using d by (auto simp: r)
  have b2: "r = Some MSG_FEW_WORDS \<longleftrightarrow> \<not> c1 \<and> c2" using d by (auto simp: r)
  have b3: "r = Some MSG_NOISE \<longleftrightarrow> \<not> c1 \<and> \<not> c2 \<and> c3" using d by (auto simp: r)
  have b4: "r = Some MSG_REPEATED \<longleftrightarrow> \<not> c1 \<and> \<not> c2 \<and> \<not> c3 \<and> c4" using d by (auto simp: r)
  have b5: "r = Some MSG_REPETITIVE \<longleftrightarrow> \<not> c1 \<and> \<not> c2 \<and> \<not> c3 \<and> \<not> c4 \<and> c5"
    using d by (auto simp: r)
  have e1: "r = Some MSG_NOISE" if "length raw = 60" "punctuation_count U raw = 48" "\<not> c2"
  proof -
    have "\<not> c1" "c3"
      unfolding c1_def c3_def t_def
      using mostly_punctuation_raw [OF that(1,2) that(3) [unfolded c2_def]] by simp_all
    then show ?thesis using that(3) b3 by simp
  qed
  have e2: "r = Some MSG_REPEATED" if "has_run 7 t" "\<not> c1" "\<not> c2" "\<not> c3"
  proof -
    have "has_run (Suc 6) t" using that(1) by simp
    then have "c4" unfolding c4_def fails_repetition_def by (rule has_run_mono)
    then show ?thesis using that b4 by simp
  qed
  have n1: "extract_and_classify_node U C state = ([], rejected state msg)" if "r = Some msg" for msg
    using that by (simp add: extract_and_classify_node_def r_def raw_def)
  have n2: "fst (extract_and_classify_node U C state) = [ModelCall (ClassifyRequest raw)]"
    if "r = None"
    using that by (simp add: extract_and_classify_node_def r_def raw_def split: option.splits)
  show ?thesis
    unfolding Let_def raw_def [symmetric] t_def [symmetric] r_def [symmetric]
    using a b1 b2 b3 b4 b5 e1 e2 n1 n2
    unfolding c1_def c2_def c3_def c4_def c5_def
    by blast
qed

theorem quality_gate_first_failing_check_witness:
  "(length punctuation_ten_words = 60
     \<and> punctuation_count ascii_db punctuation_ten_words = 48
     \<and> \<not> fails_words punctuation_ten_words)
   \<and> quality_checks ascii_db punctuation_ten_words = Some MSG_NOISE
   \<and> extract_and_classify_node ascii_db failing_model (state_with_text punctuation_ten_words) =
       ([], rejected (state_with_text punctuation_ten_words) MSG_NOISE)
   \<and> (has_run 7 (py_strip repeated_text) \<and> \<not> fails_length (py_strip repeated_text)
        \<and> \<not> fails_words repeated_text \<and> \<not> fails_ratio ascii_db (py_strip repeated_text))
   \<and> quality_checks ascii_db repeated_text = Some MSG_REPEATED
   \<and> quality_checks ascii_db padded_good_text = None
   \<and> fst (extract_and_classify_node ascii_db failing_model (state_with_text padded_good_text)) =
       [ModelCall (ClassifyRequest padded_good_text)]"
proof -
  have h1: "length punctuation_ten_words = 60
     \<and> punctuation_count ascii_db punctuation_ten_words = 48
     \<and> \<not> fails_words punctuation_ten_words"
    by (simp add: ex_length ex_punct fails_words_def ex_words)
  have h2: "has_run 7 (py_strip repeated_text) \<and> \<not> fails_length (py_strip repeated_text)
        \<and> \<not> fails_words repeated_text \<and> \<not> fails_ratio ascii_db (py_strip repeated_text)"
    by (simp add: ex_strip ex_run ex_ratio fails_length_def ex_length fails_words_def ex_words)
  have h3: "quality_checks ascii_db padded_good_text = None"
    by (rule padded_good_passes)
  have r1: "raw_text (state_with_text raw) = raw" for raw
    by (simp add: state_with_text_def initial_state_def)
  note t1 = quality_gate_first_failing_check
      [where state = "state_with_text punctuation_ten_words" and U = ascii_db
         and C = failing_model, unfolded Let_def r1]
  note t2 = quality_gate_first_failing_check
      [where state = "state_with_text repeated_text" and U = ascii_db
         and C = failing_model, unfolded Let_def r1]
  note t3 = quality_gate_first_failing_check
      [where state = "state_with_text padded_good_text" and U = ascii_db
         and C = failing_model, unfolded Let_def r1]
  have q1: "quality_checks ascii_db punctuation_ten_words = Some MSG_NOISE"
    using t1 h1 by blast
  have n1: "extract_and_classify_node ascii_db failing_model (state_with_text punctuation_ten_words) =
       ([], rejected (state_with_text punctuation_ten_words) MSG_NOISE)"
    using t1 q1 by blast
  have q2: "quality_checks ascii_db repeated_text = Some MSG_REPEATED"
    using t2 h2 by blast
  have n3: "fst (extract_and_classify_node ascii_db failing_model (state_with_text padded_good_text)) =
       [ModelCall (ClassifyRequest padded_good_text)]"
    using t3 h3 by blast
  show ?thesis using h1 h2 h3 q1 n1 q2 n3 by blast
qed

text \<open>
  C3. If the trimmed text has fewer than 50 characters or fewer than 10 words, the node
  returns the state with the message of the first of these two checks that fails,
  \<^verbatim>\<open>doc_type\<close> empty, \<^verbatim>\<open>language\<close> \<^verbatim>\<open>"es"\<close> and \<^verbatim>\<open>confidence_score\<close> 0, and it returns no
  event: the model is not called, whatever the collaborators are.
\<close>

theorem short_text_rejected_without_model_call:
  assumes "length (py_strip (raw_text state)) < 50 \<or>
           length (py_split (py_strip (raw_text state))) < 10"
  shows "extract_and_classify_node U C state =
     ([], state\<lparr>error_message :=
                  (if length (py_strip (raw_text state)) < 50 then MSG_TOO_SHORT
                   else MSG_FEW_WORDS),
                doc_type := [], language := ascii ''es'', confidence_score := 0\<rparr>)"
proof -
  have "quality_checks U (raw_text state) =
          Some (if length (py_strip (raw_text state)) < 50 then MSG_TOO_SHORT else MSG_FEW_WORDS)"
  proof (cases "length (py_strip (raw_text state)) < 50")
    case True
    then show ?thesis by (simp add: quality_checks_cascade fails_length_def)
  next
    case False
    with assms have "length (py_split (py_strip (raw_text state))) < 10" by simp
    with False show ?thesis
      by (simp add: quality_checks_cascade fails_length_def fails_words_def)
  qed
  then show ?thesis
    by (simp add: extract_and_classify_node_def rejected_def)
qed

theorem short_text_rejected_without_model_call_witness:
  "(length (py_strip (raw_text short_state)) < 50 \<or>
      length (py_split (py_strip (raw_text short_state))) < 10)
   \<and> extract_and_classify_node ascii_db (canned_model (ascii ''TIPO: x'')) short_state =
       ([], short_state\<lparr>error_message := MSG_TOO_SHORT, doc_type := [],
                        language := ascii ''es'', confidence_score := 0\<rparr>)
   \<and> \<not> fails_length (py_strip (raw_text (state_with_text punctuation_one_word)))
   \<and> extract_and_classify_node ascii_db (canned_model (ascii ''TIPO: x''))
        (state_with_text punctuation_one_word) =
       ([], (state_with_text punctuation_one_word)\<lparr>error_message := MSG_FEW_WORDS, doc_type := [],
              language := ascii ''es'', confidence_score := 0\<rparr>)"
proof -
  have r0: "raw_text short_state = ascii ''hola''"
    by (simp add: short_state_def initial_state_def)
  have l0: "length (py_strip (raw_text short_state)) < 50"
    by (simp add: r0 strip_hola) (simp add: ascii_def)
  have r1: "raw_text (state_with_text punctuation_one_word) = punctuation_one_word"
    by (simp add: state_with_text_def initial_state_def)
  have l1: "\<not> length (py_strip (raw_text (state_with_text punctuation_one_word))) < 50"
    by (simp add: r1 ex_strip ex_length)
  have w1: "length (py_split (py_strip (raw_text (state_with_text punctuation_one_word)))) < 10"
    by (simp add: r1 ex_strip ex_words)
  show ?thesis
    using l0 l1
      short_text_rejected_without_model_call [of short_state ascii_db "canned_model (ascii ''TIPO: x'')"]
      short_text_rejected_without_model_call
        [of "state_with_text punctuation_one_word" ascii_db "canned_model (ascii ''TIPO: x'')"]
      w1
    by (simp add: fails_length_def)
qed

section \<open>The classification grammar\<close>

lemma parse_no_tipo:
  "\<forall>l \<in> set ls. \<not> py_startswith l (ascii ''TIPO:'') \<Longrightarrow> fst (parse_classification U ls dt lang) = dt"
  by (induction ls arbitrary: lang) simp_all

lemma parse_no_idioma:
  "\<forall>l \<in> set ls. \<not> py_startswith l (ascii ''IDIOMA:'') \<Longrightarrow> snd (parse_classification U ls dt lang) = lang"
  by (induction ls arbitrary: dt) simp_all

lemma parse_append:
  "parse_classification U (pre @ post) dt lang =
     parse_classification U post (fst (parse_classification U pre dt lang))
       (snd (parse_classification U pre dt lang))"
  by (induction pre arbitrary: dt lang) simp_all

lemma not_both_prefixes: "py_startswith l (ascii ''IDIOMA:'') \<Longrightarrow> \<not> py_startswith l (ascii ''TIPO:'')"
  by (cases l) (simp_all add: py_startswith_def ascii_def)

lemma classify_example:
  "classify_response U classification_output = (ascii ''Contrato de arrendamiento'', ascii ''es'')"
proof -
  have s: "py_strip classification_output = classification_output"
    by (simp add: py_strip_def classification_output_def ascii_def isspace_def NL_def)
  have l: "py_split_on NL classification_output =
      [ascii ''TIPO: Contrato de arrendamiento'', ascii ''CATEGOR'' @ 205 # ascii ''A: LEGAL'',
       ascii ''IDIOMA: es'']"
    by (simp add: classification_output_def ascii_def NL_def)
  have t: "py_strip (py_replace (ascii ''TIPO: Contrato de arrendamiento'') (ascii ''TIPO:'') []) =
           ascii ''Contrato de arrendamiento''"
    by (simp add: py_replace_def py_strip_def ascii_def isspace_def)
  have i: "py_lower U (py_strip (py_replace (ascii ''IDIOMA: es'') (ascii ''IDIOMA:'') [])) = ascii ''es''"
    by (simp add: py_replace_def py_strip_def py_lower_def ascii_def isspace_def)
  have p1: "py_startswith (ascii ''TIPO: Contrato de arrendamiento'') (ascii ''TIPO:'')"
    by (simp add: py_startswith_def ascii_def)
  have p2: "\<not> py_startswith (ascii ''CATEGOR'' @ 205 # ascii ''A: LEGAL'') (ascii ''TIPO:'')"
    "\<not> py_startswith (ascii ''CATEGOR'' @ 205 # ascii ''A: LEGAL'') (ascii ''IDIOMA:'')"
    by (simp_all add: py_startswith_def ascii_def)
  have p3: "\<not> py_startswith (ascii ''IDIOMA: es'') (ascii ''TIPO:'')"
    "py_startswith (ascii ''IDIOMA: es'') (ascii ''IDIOMA:'')"
    by (simp_all add: py_startswith_def ascii_def)
  show ?thesis
    by (simp add: classify_response_def s l p1 p2 p3 t i)
qed

text \<open>
  C5, as stated: for every model output with no line starting with \<^verbatim>\<open>IDIOMA:\<close> the
  language is \<^verbatim>\<open>es\<close>. The node trims the output before it splits it (line 147), so for
  the output \<^verbatim>\<open>" IDIOMA: EN"\<close>, whose only line starts with a space, the language is
  \<^verbatim>\<open>en\<close>.
\<close>

theorem indented_line_counterexample:
  "py_split_on NL indented_output = [indented_output]
   \<and> \<not> py_startswith indented_output (ascii ''IDIOMA:'')
   \<and> classify_response ascii_db indented_output = (ascii ''desconocido'', ascii ''en'')
   \<and> language (snd (extract_and_classify_node ascii_db (canned_model indented_output)
                       (state_with_text good_text))) = ascii ''en''
   \<and> ascii ''en'' \<noteq> ascii ''es''"
proof -
  have l: "py_split_on NL indented_output = [indented_output]"
    by (simp add: indented_output_def ascii_def NL_def)
  have n: "\<not> py_startswith indented_output (ascii ''IDIOMA:'')"
    by (simp add: indented_output_def py_startswith_def ascii_def)
  have s: "py_strip indented_output = ascii ''IDIOMA: EN''"
    by (simp add: indented_output_def py_strip_def ascii_def isspace_def)
  have l2: "py_split_on NL (ascii ''IDIOMA: EN'') = [ascii ''IDIOMA: EN'']"
    by (simp add: ascii_def NL_def)
  have p: "\<not> py_startswith (ascii ''IDIOMA: EN'') (ascii ''TIPO:'')"
    "py_startswith (ascii ''IDIOMA: EN'') (ascii ''IDIOMA:'')"
    by (simp_all add: py_startswith_def ascii_def)
  have i: "py_lower ascii_db (py_strip (py_replace (ascii ''IDIOMA: EN'') (ascii ''IDIOMA:'') []))
             = ascii ''en''"
    by (simp add: py_replace_def py_strip_def py_lower_def ascii_def isspace_def)
  have c: "classify_response ascii_db indented_output = (ascii ''desconocido'', ascii ''en'')"
    by (simp add: classify_response_def s l2 p i)
  have r: "raw_text (state_with_text good_text) = good_text"
    by (simp add: state_with_text_def initial_state_def)
  have e: "language (snd (extract_and_classify_node ascii_db (canned_model indented_output)
                       (state_with_text good_text))) = ascii ''en''"
    by (simp add: extract_and_classify_node_def r good_passes canned_model_def c)
  have d: "ascii ''en'' \<noteq> ascii ''es''" by (simp add: ascii_def)
  show ?thesis using l n c e d by blast
qed

text \<open>
  C5, amended. The grammar works on the lines of the trimmed model output. On the
  example output of the specification it gives the document type
  \<^verbatim>\<open>Contrato de arrendamiento\<close> and the language \<^verbatim>\<open>es\<close>. For every output: if no line of
  the trimmed output starts with \<^verbatim>\<open>TIPO:\<close> the document type is \<^verbatim>\<open>desconocido\<close>; if none
  starts with \<^verbatim>\<open>IDIOMA:\<close> the language is \<^verbatim>\<open>es\<close>; and the last line that starts with a
  prefix decides the field, whatever came before it. These are the values the node
  stores when the text passes the gate and the model call returns.
\<close>

theorem classification_grammar:
  "classify_response U classification_output = (ascii ''Contrato de arrendamiento'', ascii ''es'')
   \<and> ((\<forall>x \<in> set (py_split_on NL (py_strip content)). \<not> py_startswith x (ascii ''TIPO:'')) \<longrightarrow>
        fst (classify_response U content) = ascii ''desconocido'')
   \<and> ((\<forall>x \<in> set (py_split_on NL (py_strip content)). \<not> py_startswith x (ascii ''IDIOMA:'')) \<longrightarrow>
        snd (classify_response U content) = ascii ''es'')
   \<and> (py_split_on NL (py_strip content) = pre @ l # post \<and> py_startswith l (ascii ''TIPO:'') \<and>
       (\<forall>x \<in> set post. \<not> py_startswith x (ascii ''TIPO:'')) \<longrightarrow>
        fst (classify_response U content) = py_strip (py_replace l (ascii ''TIPO:'') []))
   \<and> (py_split_on NL (py_strip content) = pre @ l # post \<and> py_startswith l (ascii ''IDIOMA:'') \<and>
       (\<forall>x \<in> set post. \<not> py_startswith x (ascii ''IDIOMA:'')) \<longrightarrow>
        snd (classify_response U content) =
          py_lower U (py_strip (py_replace l (ascii ''IDIOMA:'') [])))
   \<and> (quality_checks U (raw_text state) = None \<and>
       llm C (ClassifyRequest (raw_text state)) = Some content \<longrightarrow>
        extract_and_classify_node U C state =
          ([ModelCall (ClassifyRequest (raw_text state))],
           state\<lparr>doc_type := fst (classify_response U content),
                 language := snd (classify_response U content),
                 error_message := []\<rparr>))"
proof -
  have a: "fst (parse_classification U (pre @ l # post) dt lang) =
             py_strip (py_replace l (ascii ''TIPO:'') [])"
    if "py_startswith l (ascii ''TIPO:'')" "\<forall>x \<in> set post. \<not> py_startswith x (ascii ''TIPO:'')"
    for dt lang
    using that by (simp add: parse_append [of U pre "l # post"] parse_no_tipo)
  have b: "snd (parse_classification U (pre @ l # post) dt lang) =
             py_lower U (py_strip (py_replace l (ascii ''IDIOMA:'') []))"
    if "py_startswith l (ascii ''IDIOMA:'')" "\<forall>x \<in> set post. \<not> py_startswith x (ascii ''IDIOMA:'')"
    for dt lang
    using that not_both_prefixes [OF that(1)]
    by (simp add: parse_append [of U pre "l # post"] parse_no_idioma)
  have n: "extract_and_classify_node U C state =
          ([ModelCall (ClassifyRequest (raw_text state))],
           state\<lparr>doc_type := fst (classify_response U content),
                 language := snd (classify_response U content),
                 error_message := []\<rparr>)"
    if "quality_checks U (raw_text state) = None"
      "llm C (ClassifyRequest (raw_text state)) = Some content"
    using that by (simp add: extract_and_classify_node_def)
  have c2: "fst (classify_response U content) = ascii ''desconocido''"
    if "\<forall>x \<in> set (py_split_on NL (py_strip content)). \<not> py_startswith x (ascii ''TIPO:'')"
    using that by (simp add: classify_response_def parse_no_tipo)
  have c3: "snd (classify_response U content) = ascii ''es''"
    if "\<forall>x \<in> set (py_split_on NL (py_strip content)). \<not> py_startswith x (ascii ''IDIOMA:'')"
    using that by (simp add: classify_response_def parse_no_idioma)
  have c4: "fst (classify_response U content) = py_strip (py_replace l (ascii ''TIPO:'') [])"
    if "py_split_on NL (py_strip content) = pre @ l # post" "py_startswith l (ascii ''TIPO:'')"
      "\<forall>x \<in> set post. \<not> py_startswith x (ascii ''TIPO:'')"
    using a [OF that(2,3)] by (simp add: classify_response_def that(1))
  have c5: "snd (classify_response U content) =
              py_lower U (py_strip (py_replace l (ascii ''IDIOMA:'') []))"
    if "py_split_on NL (py_strip content) = pre @ l # post" "py_startswith l (ascii ''IDIOMA:'')"
      "\<forall>x \<in> set post. \<not> py_startswith x (ascii ''IDIOMA:'')"
    using b [OF that(2,3)] by (simp add: classify_response_def that(1))
  show ?thesis
    using classify_example [of U] c2 c3 c4 c5 n by blast
qed

theorem classification_grammar_witness:
  "classify_response ascii_db no_prefix_output = (ascii ''desconocido'', ascii ''es'')
   \<and> py_split_on NL (py_strip duplicate_tipo_output) =
       [ascii ''TIPO: a''] @ ascii ''TIPO: b'' # [ascii ''fin'']
   \<and> fst (classify_response ascii_db duplicate_tipo_output) = ascii ''b''
   \<and> py_split_on NL (py_strip duplicate_idioma_output) =
       [ascii ''IDIOMA: es''] @ ascii ''IDIOMA: EN'' # [ascii ''fin'']
   \<and> snd (classify_response ascii_db duplicate_idioma_output) = ascii ''en''
   \<and> quality_checks ascii_db (raw_text (state_with_text good_text)) = None
   \<and> extract_and_classify_node ascii_db (canned_model classification_output)
        (state_with_text good_text) =
       ([ModelCall (ClassifyRequest good_text)],
        (state_with_text good_text)\<lparr>doc_type := ascii ''Contrato de arrendamiento'',
           language := ascii ''es'', error_message := []\<rparr>)"
proof -
  have l0: "py_split_on NL (py_strip no_prefix_output) = [ascii ''CATEGORIA: LEGAL'']"
    by (simp add: no_prefix_output_def py_strip_def ascii_def isspace_def NL_def)
  have l1: "py_split_on NL (py_strip duplicate_tipo_output) =
       [ascii ''TIPO: a''] @ ascii ''TIPO: b'' # [ascii ''fin'']"
    by (simp add: duplicate_tipo_output_def py_strip_def ascii_def isspace_def NL_def)
  have l2: "py_split_on NL (py_strip duplicate_idioma_output) =
       [ascii ''IDIOMA: es''] @ ascii ''IDIOMA: EN'' # [ascii ''fin'']"
    by (simp add: duplicate_idioma_output_def py_strip_def ascii_def isspace_def NL_def)
  have h1: "\<forall>x \<in> set (py_split_on NL (py_strip no_prefix_output)). \<not> py_startswith x (ascii ''TIPO:'')"
    and h2: "\<forall>x \<in> set (py_split_on NL (py_strip no_prefix_output)).
               \<not> py_startswith x (ascii ''IDIOMA:'')"
    unfolding l0 by (simp_all add: py_startswith_def ascii_def)
  have h3: "py_startswith (ascii ''TIPO: b'') (ascii ''TIPO:'')"
    and h4: "\<forall>x \<in> set [ascii ''fin'']. \<not> py_startswith x (ascii ''TIPO:'')"
    and h5: "py_startswith (ascii ''IDIOMA: EN'') (ascii ''IDIOMA:'')"
    and h6: "\<forall>x \<in> set [ascii ''fin'']. \<not> py_startswith x (ascii ''IDIOMA:'')"
    by (simp_all add: py_startswith_def ascii_def)
  have t: "py_strip (py_replace (ascii ''TIPO: b'') (ascii ''TIPO:'') []) = ascii ''b''"
    by (simp add: py_replace_def py_strip_def ascii_def isspace_def)
  have i: "py_lower ascii_db (py_strip (py_replace (ascii ''IDIOMA: EN'') (ascii ''IDIOMA:'') []))
             = ascii ''en''"
    by (simp add: py_replace_def py_strip_def py_lower_def ascii_def isspace_def)
  have r: "raw_text (state_with_text good_text) = good_text"
    by (simp add: state_with_text_def initial_state_def)
  have q: "quality_checks ascii_db (raw_text (state_with_text good_text)) = None"
    by (simp add: r good_passes)
  have m: "llm (canned_model classification_output)
             (ClassifyRequest (raw_text (state_with_text good_text))) = Some classification_output"
    by (simp add: canned_model_def)
  note g0 = classification_grammar
      [where U = ascii_db and content = no_prefix_output and pre = "[]" and l = "[]" and post = "[]"
         and state = "state_with_text good_text" and C = "canned_model classification_output"]
  note g1 = classification_grammar
      [where U = ascii_db and content = duplicate_tipo_output and pre = "[ascii ''TIPO: a'']"
         and l = "ascii ''TIPO: b''" and post = "[ascii ''fin'']"
         and state = "state_with_text good_text" and C = "canned_model classification_output"]
  note g2 = classification_grammar
      [where U = ascii_db and content = duplicate_idioma_output and pre = "[ascii ''IDIOMA: es'']"
         and l = "ascii ''IDIOMA: EN''" and post = "[ascii ''fin'']"
         and state = "state_with_text good_text" and C = "canned_model classification_output"]
  note g3 = classification_grammar
      [where U = ascii_db and content = classification_output and pre = "[]" and l = "[]"
         and post = "[]" and state = "state_with_text good_text"
         and C = "canned_model classification_output"]
  have c0: "classify_response ascii_db no_prefix_output = (ascii ''desconocido'', ascii ''es'')"
    using g0 h1 h2 by (simp add: prod_eq_iff)
  have c1: "fst (classify_response ascii_db duplicate_tipo_output) = ascii ''b''"
    using g1 l1 h3 h4 t by simp
  have c2: "snd (classify_response ascii_db duplicate_idioma_output) = ascii ''en''"
    using g2 l2 h5 h6 i by simp
  have c3: "extract_and_classify_node ascii_db (canned_model classification_output)
        (state_with_text good_text) =
       ([ModelCall (ClassifyRequest good_text)],
        (state_with_text good_text)\<lparr>doc_type := ascii ''Contrato de arrendamiento'',
           language := ascii ''es'', error_message := []\<rparr>)"
    using g3 q m by (simp add: r)
  show ?thesis using c0 l1 c1 l2 c2 q c3 by blast
qed

section \<open>The conditional edge\<close>

lemma classify_events:
  "fst (extract_and_classify_node U C state) = [] \<or>
   fst (extract_and_classify_node U C state) = [ModelCall (ClassifyRequest (raw_text state))]"
  by (simp add: extract_and_classify_node_def split: option.splits)

lemma classify_message_blank_iff:
  "py_strip (error_message (snd (extract_and_classify_node U C state))) = [] \<longleftrightarrow>
   error_message (snd (extract_and_classify_node U C state)) = []"
proof
  assume b: "py_strip (error_message (snd (extract_and_classify_node U C state))) = []"
  show "error_message (snd (extract_and_classify_node U C state)) = []"
  proof (cases "quality_checks U (raw_text state)")
    case (Some msg)
    then have "error_message (snd (extract_and_classify_node U C state)) = msg"
      by (simp add: extract_and_classify_node_def rejected_def)
    with b quality_checks_msg [OF Some] msgs_not_blank show ?thesis by auto
  next
    case None
    with b msgs_not_blank(6) show ?thesis
      by (auto simp: extract_and_classify_node_def rejected_def split: option.splits)
  qed
next
  assume "error_message (snd (extract_and_classify_node U C state)) = []"
  then show "py_strip (error_message (snd (extract_and_classify_node U C state))) = []"
    by (simp add: py_strip_def)
qed

lemma analyze_calls_model:
  "py_strip (error_message s) = [] \<Longrightarrow>
     ModelCall (AnalyzeRequest (doc_type s) (raw_text s) (language s))
       \<in> set (fst (simplify_and_analyze_node U C s))"
  by (simp add: simplify_and_analyze_node_def has_error_iff Let_def split: option.splits prod.splits)

text \<open>
  C1. After \<^verbatim>\<open>extract_and_classify\<close> the graph runs \<^verbatim>\<open>simplify_and_analyze\<close> exactly when
  the \<^verbatim>\<open>error_message\<close> of the returned state is empty once trimmed. In that case the
  run is the two nodes, the events of the first followed by those of
  \<open>simplify_and_analyze_node\<close> applied to the state the first returned, and the state
  the second returned; the model call of the second node is among the events. Otherwise
  the run is the first node alone, with its events and its state, and no analysis
  request is made. The message that the first node returns is either empty or not
  blank, so for these states "empty" and "empty once trimmed" agree. The routing reads
  no other field: overwriting all nine other fields leaves \<open>should_continue\<close> as it
  was.
\<close>

theorem analysis_runs_iff_no_error:
  "run_graph U C state =
     (if py_strip (error_message (snd (extract_and_classify_node U C state))) = []
      then ([ExtractAndClassify, SimplifyAndAnalyze],
            fst (extract_and_classify_node U C state) @
              fst (simplify_and_analyze_node U C (snd (extract_and_classify_node U C state))),
            snd (simplify_and_analyze_node U C (snd (extract_and_classify_node U C state))))
      else ([ExtractAndClassify], fst (extract_and_classify_node U C state),
            snd (extract_and_classify_node U C state)))
   \<and> (py_strip (error_message (snd (extract_and_classify_node U C state))) = [] \<longrightarrow>
        ModelCall (AnalyzeRequest (doc_type (snd (extract_and_classify_node U C state)))
                     (raw_text (snd (extract_and_classify_node U C state)))
                     (language (snd (extract_and_classify_node U C state))))
          \<in> set (fst (snd (run_graph U C state))))
   \<and> (py_strip (error_message (snd (extract_and_classify_node U C state))) \<noteq> [] \<longrightarrow>
        ModelCall (AnalyzeRequest dt rt lg) \<notin> set (fst (snd (run_graph U C state))))
   \<and> (py_strip (error_message (snd (extract_and_classify_node U C state))) = []
        \<longleftrightarrow> error_message (snd (extract_and_classify_node U C state)) = [])
   \<and> should_continue
        (s\<lparr>raw_text := a, doc_type := b, simplified_explanation := c, identified_risks := d,
           action_items := e, confidence_score := f, language := g, thread_id := h,
           user_token := i\<rparr>) = should_continue s"
proof -
  obtain ev1 s1 where r: "extract_and_classify_node U C state = (ev1, s1)"
    by (cases "extract_and_classify_node U C state")
  have g: "run_graph U C state =
     (if py_strip (error_message s1) = []
      then ([ExtractAndClassify, SimplifyAndAnalyze],
            ev1 @ fst (simplify_and_analyze_node U C s1), snd (simplify_and_analyze_node U C s1))
      else ([ExtractAndClassify], ev1, s1))"
    by (simp add: run_graph_def r should_continue_def has_error_iff conditional_edges_def
          split: prod.splits)
  have m: "ModelCall (AnalyzeRequest (doc_type s1) (raw_text s1) (language s1))
             \<in> set (fst (snd (run_graph U C state)))"
    if "py_strip (error_message s1) = []"
    using that analyze_calls_model [OF that, of U C] by (simp add: g)
  have n: "ModelCall (AnalyzeRequest dt rt lg) \<notin> set (fst (snd (run_graph U C state)))"
    if "py_strip (error_message s1) \<noteq> []"
    using that classify_events [of U C state] by (auto simp: g r)
  have q: "py_strip (error_message s1) = [] \<longleftrightarrow> error_message s1 = []"
    using classify_message_blank_iff [of U C state] by (simp add: r)
  have c: "should_continue
        (s\<lparr>raw_text := a, doc_type := b, simplified_explanation := c, identified_risks := d,
           action_items := e, confidence_score := f, language := g, thread_id := h,
           user_token := i\<rparr>) = should_continue s"
    by (simp add: should_continue_def has_error_def)
  show ?thesis
    unfolding r fst_conv snd_conv using g m n q c by blast
qed

theorem analysis_runs_iff_no_error_witness:
  "run_graph ascii_db failing_model short_state =
     ([ExtractAndClassify], [],
      short_state\<lparr>error_message := MSG_TOO_SHORT, doc_type := [], language := ascii ''es'',
                  confidence_score := 0\<rparr>)
   \<and> fst (run_graph ascii_db (canned_model classification_output) (state_with_text good_text)) =
       [ExtractAndClassify, SimplifyAndAnalyze]
   \<and> ModelCall (AnalyzeRequest (ascii ''Contrato de arrendamiento'') good_text (ascii ''es''))
       \<in> set (fst (snd (run_graph ascii_db (canned_model classification_output)
                           (state_with_text good_text))))"
proof -
  have a: "extract_and_classify_node ascii_db failing_model short_state =
     ([], short_state\<lparr>error_message := MSG_TOO_SHORT, doc_type := [], language := ascii ''es'',
                  confidence_score := 0\<rparr>)"
    by (simp add: extract_and_classify_node_def short_state_def initial_state_def
          quality_checks_hola rejected_def)
  have r: "raw_text (state_with_text good_text) = good_text"
    by (simp add: state_with_text_def initial_state_def)
  have b: "extract_and_classify_node ascii_db (canned_model classification_output)
             (state_with_text good_text) =
           ([ModelCall (ClassifyRequest good_text)],
            (state_with_text good_text)\<lparr>doc_type := ascii ''Contrato de arrendamiento'',
               language := ascii ''es'', error_message := []\<rparr>)"
    by (simp add: extract_and_classify_node_def r good_passes canned_model_def classify_example)
  have s0: "py_strip [] = []" by (simp add: py_strip_def)
  note t1 = analysis_runs_iff_no_error
      [where U = ascii_db and C = failing_model and state = short_state and dt = "[]" and rt = "[]"
         and lg = "[]" and s = short_state and a = "[]" and b = "[]" and c = "[]" and d = "[]"
         and e = "[]" and f = 0 and g = "[]" and h = "[]" and i = "[]", unfolded a fst_conv snd_conv]
  note t2 = analysis_runs_iff_no_error
      [where U = ascii_db and C = "canned_model classification_output"
         and state = "state_with_text good_text" and dt = "[]" and rt = "[]"
         and lg = "[]" and s = short_state and a = "[]" and b = "[]" and c = "[]" and d = "[]"
         and e = "[]" and f = 0 and g = "[]" and h = "[]" and i = "[]", unfolded b fst_conv snd_conv]
  have c1: "run_graph ascii_db failing_model short_state =
     ([ExtractAndClassify], [],
      short_state\<lparr>error_message := MSG_TOO_SHORT, doc_type := [], language := ascii ''es'',
                  confidence_score := 0\<rparr>)"
    using t1 [THEN conjunct1] msgs_not_blank(1) by simp
  have c2: "fst (run_graph ascii_db (canned_model classification_output) (state_with_text good_text)) =
       [ExtractAndClassify, SimplifyAndAnalyze]"
    using t2 [THEN conjunct1] by (simp add: s0)
  have c3: "ModelCall (AnalyzeRequest (ascii ''Contrato de arrendamiento'') good_text (ascii ''es''))
       \<in> set (fst (snd (run_graph ascii_db (canned_model classification_output)
                           (state_with_text good_text))))"
    using t2 [THEN conjunct2, THEN conjunct1] by (simp add: s0 r)
  show ?thesis using c1 c2 c3 by blast
qed

section \<open>The entry guard and the failure path of simplify\_and\_analyze\_node\<close>

lemma analyze_guard:
  "py_strip (error_message state) \<noteq> [] \<Longrightarrow> simplify_and_analyze_node U C state = ([], state)"
  by (simp add: simplify_and_analyze_node_def has_error_iff)

lemma analyze_failure:
  "py_strip (error_message state) = [] \<Longrightarrow>
   llm C (AnalyzeRequest (doc_type state) (raw_text state) (language state)) = None \<Longrightarrow>
   simplify_and_analyze_node U C state =
     ([ModelCall (AnalyzeRequest (doc_type state) (raw_text state) (language state))],
      state\<lparr>simplified_explanation := FAILED_EXPLANATION,
            identified_risks := [FAILED_RISK],
            action_items := [FAILED_ACTION],
            confidence_score := 0\<rparr>)"
  by (simp add: simplify_and_analyze_node_def has_error_iff)

lemma strip_examples:
  "py_strip (ascii '' '') = []" "py_strip (ascii ''x'') = ascii ''x''" "py_strip [] = []"
  by (simp_all add: py_strip_def ascii_def isspace_def)

text \<open>
  C4, as stated: a state whose \<^verbatim>\<open>error_message\<close> is not empty comes back unchanged and
  no collaborator is invoked. It fails for a message of one space: the guard of line
  244 tests the trimmed message, so the node calls the model and, the call failing
  here, overwrites the risks.
\<close>

theorem nonempty_error_message_counterexample:
  "error_message blank_error_state \<noteq> []
   \<and> fst (simplify_and_analyze_node ascii_db failing_model blank_error_state) =
       [ModelCall (AnalyzeRequest [] (ascii ''hola'') (ascii ''es''))]
   \<and> identified_risks blank_error_state = []
   \<and> identified_risks (snd (simplify_and_analyze_node ascii_db failing_model blank_error_state)) =
       [FAILED_RISK]"
proof -
  have b: "py_strip (error_message blank_error_state) = []"
    by (simp add: blank_error_state_def strip_examples)
  have l: "llm failing_model r = None" for r
    by (simp add: failing_model_def)
  show ?thesis
    by (simp add: analyze_failure [OF b l])
       (simp add: blank_error_state_def short_state_def initial_state_def ascii_def)
qed

text \<open>
  C4, amended: a state whose \<^verbatim>\<open>error_message\<close> is not blank (not empty once trimmed)
  comes back unchanged, and the node invokes neither the model nor the database: it
  returns no event at all.
\<close>

theorem nonblank_error_message_is_identity:
  "py_strip (error_message state) \<noteq> [] \<Longrightarrow> simplify_and_analyze_node U C state = ([], state)"
  by (rule analyze_guard)

theorem nonblank_error_message_is_identity_witness:
  "py_strip (error_message x_error_state) \<noteq> []
   \<and> simplify_and_analyze_node ascii_db (canned_model (ascii ''RESUMEN:'')) x_error_state =
       ([], x_error_state)"
proof -
  have b: "py_strip (error_message x_error_state) \<noteq> []"
    by (simp add: x_error_state_def strip_examples) (simp add: ascii_def)
  show ?thesis
    using b nonblank_error_message_is_identity [OF b] by simp
qed

text \<open>
  C7. When the model call of \<^verbatim>\<open>simplify_and_analyze_node\<close> raises, the node returns
  the incoming state with the fixed explanation, \<^verbatim>\<open>identified_risks\<close> and
  \<^verbatim>\<open>action_items\<close> replaced by one fixed element each (whatever they held before) and
  \<^verbatim>\<open>confidence_score\<close> 0. The handler of line 449 catches every \<^verbatim>\<open>Exception\<close> of the
  body, so the node returns a state: its result has no error branch. The database is
  not touched.
\<close>

theorem model_failure_gives_fallback:
  assumes "py_strip (error_message state) = []"
    and "llm C (AnalyzeRequest (doc_type state) (raw_text state) (language state)) = None"
  shows "simplify_and_analyze_node U C state =
     ([ModelCall (AnalyzeRequest (doc_type state) (raw_text state) (language state))],
      state\<lparr>simplified_explanation := FAILED_EXPLANATION,
            identified_risks := [FAILED_RISK],
            action_items := [FAILED_ACTION],
            confidence_score := 0\<rparr>)"
  using assms by (rule analyze_failure)

theorem model_failure_gives_fallback_witness:
  "py_strip (error_message old_risk_state) = []
   \<and> llm failing_model (AnalyzeRequest (doc_type old_risk_state) (raw_text old_risk_state)
        (language old_risk_state)) = None
   \<and> identified_risks old_risk_state = [ascii ''old'']
   \<and> action_items old_risk_state = [ascii ''a'', ascii ''b'']
   \<and> identified_risks (snd (simplify_and_analyze_node ascii_db failing_model old_risk_state)) =
       [FAILED_RISK]
   \<and> action_items (snd (simplify_and_analyze_node ascii_db failing_model old_risk_state)) =
       [FAILED_ACTION]
   \<and> confidence_score (snd (simplify_and_analyze_node ascii_db failing_model old_risk_state)) = 0"
proof -
  have b: "py_strip (error_message old_risk_state) = []"
    by (simp add: old_risk_state_def short_state_def initial_state_def strip_examples)
  have l: "llm failing_model (AnalyzeRequest (doc_type old_risk_state) (raw_text old_risk_state)
        (language old_risk_state)) = None"
    by (simp add: failing_model_def)
  show ?thesis
    using b l model_failure_gives_fallback [OF b l, of ascii_db]
    by (simp add: old_risk_state_def)
qed

text \<open>
  C10. If the incoming \<^verbatim>\<open>error_message\<close> is empty and the model call raises, the
  returned \<^verbatim>\<open>error_message\<close> is still empty: the failure shows in the explanation, the
  two one-element lists and the score only, and a caller that tests \<^verbatim>\<open>error_message\<close>
  as \<open>should_continue\<close> does sees no error.
\<close>

theorem model_failure_keeps_error_message_empty:
  assumes "error_message state = []"
    and "llm C (AnalyzeRequest (doc_type state) (raw_text state) (language state)) = None"
  shows "error_message (snd (simplify_and_analyze_node U C state)) = []
     \<and> \<not> has_error (snd (simplify_and_analyze_node U C state))
     \<and> should_continue (snd (simplify_and_analyze_node U C state)) = ''continue''
     \<and> simplified_explanation (snd (simplify_and_analyze_node U C state)) = FAILED_EXPLANATION
     \<and> identified_risks (snd (simplify_and_analyze_node U C state)) = [FAILED_RISK]
     \<and> action_items (snd (simplify_and_analyze_node U C state)) = [FAILED_ACTION]
     \<and> confidence_score (snd (simplify_and_analyze_node U C state)) = 0"
proof -
  have b: "py_strip (error_message state) = []"
    using assms(1) by (simp add: strip_examples)
  show ?thesis
    by (simp add: analyze_failure [OF b assms(2)] should_continue_def has_error_def assms(1))
qed

theorem model_failure_keeps_error_message_empty_witness:
  "error_message short_state = []
   \<and> llm failing_model (AnalyzeRequest (doc_type short_state) (raw_text short_state)
        (language short_state)) = None
   \<and> error_message (snd (simplify_and_analyze_node ascii_db failing_model short_state)) = []
   \<and> should_continue (snd (simplify_and_analyze_node ascii_db failing_model short_state)) =
       ''continue''
   \<and> identified_risks (snd (simplify_and_analyze_node ascii_db failing_model short_state)) =
       [FAILED_RISK]"
proof -
  have e: "error_message short_state = []"
    by (simp add: short_state_def initial_state_def)
  have l: "llm failing_model (AnalyzeRequest (doc_type short_state) (raw_text short_state)
        (language short_state)) = None"
    by (simp add: failing_model_def)
  show ?thesis
    using e l model_failure_keeps_error_message_empty [OF e l, of ascii_db] by simp
qed

section \<open>The success path of simplify\_and\_analyze\_node\<close>

lemma analyze_success:
  "py_strip (error_message state) = [] \<Longrightarrow>
   llm C (AnalyzeRequest (doc_type state) (raw_text state) (language state)) = Some content \<Longrightarrow>
   simplify_and_analyze_node U C state =
     (ModelCall (AnalyzeRequest (doc_type state) (raw_text state) (language state)) #
        persist C state (fst (parse_analysis U content)) (fst (snd (parse_analysis U content)))
          (snd (snd (parse_analysis U content))),
      state\<lparr>simplified_explanation := fst (parse_analysis U content),
            identified_risks := fst (snd (parse_analysis U content)),
            action_items := snd (snd (parse_analysis U content)),
            user_token := user_token state\<rparr>)"
  by (simp add: simplify_and_analyze_node_def has_error_iff split: prod.splits)

lemma parse_analysis_fallback:
  "fst (snd (analysis_loop U (py_split_on NL (py_strip content)) (NoSection, [], [], []))) = [] \<Longrightarrow>
   fst (parse_analysis U content) = take 500 (py_strip content)"
  by (auto simp: parse_analysis_def Let_def split: prod.splits)





lemma padded_loop:
  "analysis_loop U (py_split_on NL (py_strip padded_output)) (NoSection, [], [], []) = (NoSection, [], [], [])"
proof -
  have s: "py_strip padded_output = ascii ''hola''"
    by (simp add: padded_output_def py_strip_def ascii_def isspace_def)
  have l: "py_split_on NL (ascii ''hola'') = [ascii ''hola'']"
    by (simp add: ascii_def NL_def)
  have t: "py_strip (ascii ''hola'') = ascii ''hola''"
    by (simp add: py_strip_def ascii_def isspace_def)
  have h: "\<not> py_startswith (ascii ''hola'') HEADER_RESUMEN"
    "\<not> py_startswith (ascii ''hola'') HEADER_RIESGOS"
    "\<not> py_startswith (ascii ''hola'') HEADER_ACCIONES"
    by (simp_all add: py_startswith_def HEADER_RESUMEN_def HEADER_RIESGOS_def HEADER_ACCIONES_def
          ascii_def)
  show ?thesis
    by (simp add: s l analysis_line_def t h)
qed

lemma padded_strip: "py_strip padded_output = ascii ''hola''"
  by (simp add: padded_output_def py_strip_def ascii_def isspace_def)

lemma short_state_fields:
  "error_message short_state = []" "doc_type short_state = []"
  "raw_text short_state = ascii ''hola''" "language short_state = ascii ''es''"
  "thread_id short_state = ascii ''user_42_ab12cd''" "user_token short_state = ascii ''tok''"
  by (simp_all add: short_state_def initial_state_def)



text \<open>
  C9, as stated: when the grammar accumulates no explanation, the explanation is the
  first 500 characters of the raw model response. The node trims the response first
  (line 316), so for the response \<^verbatim>\<open>" hola"\<close> the explanation is \<^verbatim>\<open>"hola"\<close>, which is not
  the beginning of the raw response.
\<close>

theorem raw_response_counterexample:
  "fst (snd (analysis_loop ascii_db (py_split_on NL (py_strip padded_output))
               (NoSection, [], [], []))) = []
   \<and> simplified_explanation
        (snd (simplify_and_analyze_node ascii_db (canned_model padded_output) short_state)) =
       ascii ''hola''
   \<and> take 500 padded_output = ascii '' hola''
   \<and> ascii ''hola'' \<noteq> ascii '' hola''"
proof -
  have e: "py_strip (error_message short_state) = []"
    by (simp add: short_state_fields strip_examples)
  have l: "llm (canned_model padded_output)
             (AnalyzeRequest (doc_type short_state) (raw_text short_state) (language short_state))
           = Some padded_output"
    by (simp add: canned_model_def)
  have f: "fst (parse_analysis ascii_db padded_output) = take 500 (py_strip padded_output)"
    by (rule parse_analysis_fallback) (simp add: padded_loop)
  have "simplified_explanation
        (snd (simplify_and_analyze_node ascii_db (canned_model padded_output) short_state)) =
       take 500 (py_strip padded_output)"
    by (simp add: analyze_success [OF e l] f)
  moreover have "take 500 (py_strip padded_output) = ascii ''hola''"
    by (simp add: padded_strip) (simp add: ascii_def)
  moreover have "take 500 padded_output = ascii '' hola''"
    by (simp add: padded_output_def) (simp add: ascii_def)
  moreover have "ascii ''hola'' \<noteq> ascii '' hola''"
    by (simp add: ascii_def)
  ultimately show ?thesis by (simp add: padded_loop)
qed

text \<open>
  C9, amended: when the grammar accumulates no explanation, the explanation is the first
  500 characters of the trimmed model response.
\<close>

theorem empty_explanation_is_trimmed_response_prefix:
  assumes "py_strip (error_message state) = []"
    and "llm C (AnalyzeRequest (doc_type state) (raw_text state) (language state)) = Some content"
    and "fst (snd (analysis_loop U (py_split_on NL (py_strip content)) (NoSection, [], [], []))) = []"
  shows "simplified_explanation (snd (simplify_and_analyze_node U C state)) =
           take 500 (py_strip content)"
  by (simp add: analyze_success [OF assms(1,2)] parse_analysis_fallback [OF assms(3)])

theorem empty_explanation_is_trimmed_response_prefix_witness:
  "py_strip (error_message short_state) = []
   \<and> llm (canned_model padded_output)
        (AnalyzeRequest (doc_type short_state) (raw_text short_state) (language short_state))
      = Some padded_output
   \<and> fst (snd (analysis_loop ascii_db (py_split_on NL (py_strip padded_output))
               (NoSection, [], [], []))) = []
   \<and> simplified_explanation
        (snd (simplify_and_analyze_node ascii_db (canned_model padded_output) short_state)) =
       take 500 (py_strip padded_output)"
proof -
  have e: "py_strip (error_message short_state) = []"
    by (simp add: short_state_fields strip_examples)
  have l: "llm (canned_model padded_output)
             (AnalyzeRequest (doc_type short_state) (raw_text short_state) (language short_state))
           = Some padded_output"
    by (simp add: canned_model_def)
  have g: "fst (snd (analysis_loop ascii_db (py_split_on NL (py_strip padded_output))
               (NoSection, [], [], []))) = []"
    by (simp add: padded_loop)
  show ?thesis
    using e l g empty_explanation_is_trimmed_response_prefix [OF e l g] by simp
qed

section \<open>The user id and the insert\<close>




section \<open>The analysis grammar\<close>



































end
